theory Spec2Isabelle
  imports Complex_Main "HOL-Library.Product_Lexorder" "HOL-Library.AList" "HOL-Library.Log_Nat"
begin

section \<open>Dates, times and the interpreter\<close>

text \<open>
  A Python \<open>date\<close> is modelled by its proleptic Gregorian ordinal (\<open>date.toordinal()\<close>),
  which ranges over 1 .. 3652059 (0001-01-01 .. 9999-12-31); comparison and subtraction
  of dates are comparison and subtraction of ordinals. A naive \<open>time\<close> is the number of
  microseconds since midnight, so \<open>time.min\<close> is 0 and comparison of times is comparison
  of numbers. A \<open>datetime\<close> is a date paired with a time, ordered lexicographically.
  The source reads \<open>date.today()\<close> and \<open>datetime.now()\<close> where it needs them; the model
  passes one reading of the clock to each operation.

  \<open>str.lower()\<close> is the interpreter's Unicode lowercasing. The code only calls it, so the
  model takes it from the same environment as the clock, as the field \<open>str_lower\<close>, and
  every statement about an arbitrary environment holds for whatever function it is.
\<close>

type_synonym date = int
type_synonym time = nat
type_synonym datetime = "date \<times> time"

datatype error = OverflowError | AttributeError | KeyError | ZeroDivisionError

record clock =
  today :: date
  time_now :: time
  str_lower :: "string \<Rightarrow> string"

definition datetime_now :: "clock \<Rightarrow> datetime" where
  "datetime_now clk = (today clk, time_now clk)"

definition time_min :: time where
  "time_min = 0"

definition timedelta :: "int \<Rightarrow> error + int" where
  \<comment> \<open>\<open>timedelta(days=n)\<close>: the day count must have magnitude at most 999999999.\<close>
  "timedelta days = (if \<bar>days\<bar> > 999999999 then Inl OverflowError else Inr days)"

definition date_add :: "date \<Rightarrow> int \<Rightarrow> error + date" where
  \<comment> \<open>\<open>date + timedelta\<close>: the resulting ordinal must be a date.\<close>
  "date_add d delta =
     (if 1 \<le> d + delta \<and> d + delta \<le> 3652059 then Inr (d + delta) else Inl OverflowError)"

definition date_plus_days :: "date \<Rightarrow> int \<Rightarrow> error + date" where
  \<comment> \<open>\<open>d + timedelta(days=n)\<close>\<close>
  "date_plus_days d n = (case timedelta n of Inl e \<Rightarrow> Inl e | Inr delta \<Rightarrow> date_add d delta)"

definition date_plus_weeks :: "date \<Rightarrow> int \<Rightarrow> error + date" where
  \<comment> \<open>\<open>d + timedelta(weeks=n)\<close>: a week is seven days.\<close>
  "date_plus_weeks d n = (case timedelta (7 * n) of Inl e \<Rightarrow> Inl e | Inr delta \<Rightarrow> date_add d delta)"

definition datetime_minus_days :: "datetime \<Rightarrow> int \<Rightarrow> error + datetime" where
  \<comment> \<open>\<open>dt - timedelta(days=n)\<close>\<close>
  "datetime_minus_days dt n =
     (case timedelta n of
        Inl e \<Rightarrow> Inl e
      | Inr delta \<Rightarrow>
          (if 1 \<le> fst dt - delta \<and> fst dt - delta \<le> 3652059
           then Inr (fst dt - delta, snd dt) else Inl OverflowError))"

section \<open>Strings and floats\<close>

definition ascii_lower_char :: "char \<Rightarrow> char" where
  "ascii_lower_char c =
     (let n = (of_char c :: nat) in if 65 \<le> n \<and> n \<le> 90 then char_of (n + 32) else c)"

definition ascii_lower :: "string \<Rightarrow> string" where
  \<comment> \<open>what \<open>str.lower()\<close> returns on a string of ASCII characters; the environment of the
      sample data below, whose strings are all ASCII\<close>
  "ascii_lower s = map ascii_lower_char s"

text \<open>
  A Python \<open>float\<close> is a binary64 number: 53 significant bits, least exponent -1074,
  every operation rounded to the nearest representable value, ties to even. A finite
  float is modelled by the rational it denotes. \<open>round_binary64\<close> is that rounding;
  \<open>floor_log2 x\<close> is the \<open>k\<close> with \<open>2 ^ k \<le> x < 2 ^ (k + 1)\<close> for positive \<open>x\<close>.
  \<open>int_truediv\<close> is \<open>/\<close> on two ints: it raises \<open>ZeroDivisionError\<close> for a zero divisor
  and \<open>OverflowError\<close> when the quotient rounds beyond the largest float, and returns
  the correctly rounded quotient otherwise. \<open>float_mul\<close> is \<open>*\<close> on floats whose product
  stays within the finite range, as it does for a factor 100 and a quotient of at most 1.
\<close>

definition pow2 :: "int \<Rightarrow> rat" where
  "pow2 e = (if e \<ge> 0 then 2 ^ nat e else 1 / 2 ^ nat (- e))"

definition floor_log2 :: "rat \<Rightarrow> int" where
  "floor_log2 x =
     (let k = bitlen (fst (quotient_of x)) - bitlen (snd (quotient_of x))
      in if pow2 k \<le> x then k else k - 1)"

definition round_half_even :: "rat \<Rightarrow> int" where
  "round_half_even q =
     (let f = \<lfloor>q\<rfloor>; r = q - of_int f
      in if r < 1 / 2 then f else if r > 1 / 2 then f + 1 else if even f then f else f + 1)"

definition round_binary64 :: "rat \<Rightarrow> rat" where
  "round_binary64 x =
     (if x = 0 then 0
      else (let e = max (floor_log2 \<bar>x\<bar> - 52) (- 1074)
            in sgn x * of_int (round_half_even (\<bar>x\<bar> / pow2 e)) * pow2 e))"

definition float_overflow_bound :: rat where
  \<comment> \<open>halfway between the largest float and \<open>2 ^ 1024\<close>: from here on rounding overflows\<close>
  "float_overflow_bound = 2 ^ 1024 - 2 ^ 970"

definition int_truediv :: "int \<Rightarrow> int \<Rightarrow> error + rat" where
  "int_truediv a b =
     (if b = 0 then Inl ZeroDivisionError
      else if float_overflow_bound \<le> \<bar>of_int a / of_int b :: rat\<bar> then Inl OverflowError
      else Inr (round_binary64 (of_int a / of_int b)))"

definition float_mul :: "rat \<Rightarrow> rat \<Rightarrow> rat" where
  "float_mul x y = round_binary64 (x * y)"

section \<open>Task entity (models/task.py)\<close>

text \<open>
  \<open>BaseTask\<close> carries the shared fields; \<open>RegularTask\<close> and \<open>RecurringTask\<close> both derive
  from \<open>BaseTask\<close> directly. The class of an object is read off the field \<open>recurring\<close>:
  \<open>None\<close> for a \<open>RegularTask\<close>, the three attributes added by \<open>RecurringTask.__init__\<close>
  otherwise. \<open>original_deadline\<close> is the raw constructor argument and so may be \<open>None\<close>.
\<close>

record recurrence =
  recurrence_type :: string
  recurrence_count :: int
  original_deadline :: "date option"

record task =
  task_id :: string
  title :: string
  description :: string
  deadline_date :: date
  deadline_time :: "time option"
  priority :: int
  category :: string
  completed :: bool
  created_at :: datetime
  completed_at :: "datetime option"
  recurring :: "recurrence option"

definition BaseTask_init ::
  "clock \<Rightarrow> string \<Rightarrow> string \<Rightarrow> string \<Rightarrow> date option \<Rightarrow> time option \<Rightarrow> int \<Rightarrow> string \<Rightarrow> task" where
  \<comment> \<open>\<open>uuid\<close> is the value drawn by \<open>uuid.uuid4()\<close>; a date is always truthy, so
      \<open>deadline_date or date.today()\<close> falls back to today only for \<open>None\<close>.\<close>
  "BaseTask_init clk uuid ttl descr dd dt prio cat =
     \<lparr> task_id = uuid, title = ttl, description = descr,
       deadline_date = (case dd of None \<Rightarrow> today clk | Some d \<Rightarrow> d),
       deadline_time = dt, priority = prio, category = str_lower clk cat,
       completed = False, created_at = datetime_now clk, completed_at = None,
       recurring = None \<rparr>"

definition RegularTask_init ::
  "clock \<Rightarrow> string \<Rightarrow> string \<Rightarrow> string \<Rightarrow> date option \<Rightarrow> time option \<Rightarrow> int \<Rightarrow> string \<Rightarrow> task" where
  "RegularTask_init = BaseTask_init"

definition RecurringTask_init ::
  "clock \<Rightarrow> string \<Rightarrow> string \<Rightarrow> string \<Rightarrow> date option \<Rightarrow> time option \<Rightarrow> int \<Rightarrow> string
     \<Rightarrow> string \<Rightarrow> int \<Rightarrow> task" where
  "RecurringTask_init clk uuid ttl descr dd dt prio cat rtype rcount =
     (BaseTask_init clk uuid ttl descr dd dt prio cat)
       \<lparr> recurring := Some \<lparr> recurrence_type = rtype, recurrence_count = rcount,
                             original_deadline = dd \<rparr> \<rparr>"

definition isinstance_RecurringTask :: "task \<Rightarrow> bool" where
  "isinstance_RecurringTask t = (recurring t \<noteq> None)"

definition task_mark_completed :: "clock \<Rightarrow> task \<Rightarrow> task" where
  \<comment> \<open>\<open>BaseTask.mark_completed\<close>\<close>
  "task_mark_completed clk t = t \<lparr> completed := True, completed_at := Some (datetime_now clk) \<rparr>"

definition get_days_until_deadline :: "clock \<Rightarrow> task \<Rightarrow> int" where
  "get_days_until_deadline clk t = deadline_date t - today clk"

definition is_overdue :: "clock \<Rightarrow> task \<Rightarrow> bool" where
  \<comment> \<open>A \<open>time\<close> object is always truthy, so \<open>and self.deadline_time\<close> tests for \<open>None\<close>.\<close>
  "is_overdue clk t =
     (if completed t then False
      else if deadline_date t < today clk then True
      else if deadline_date t = today clk \<and> deadline_time t \<noteq> None
           then (case deadline_time t of Some dl \<Rightarrow> time_now clk > dl | None \<Rightarrow> False)
      else False)"

definition BaseTask_get_urgency_level :: "clock \<Rightarrow> task \<Rightarrow> string option" where
  \<comment> \<open>The abstract method's body is \<open>pass\<close>: called through \<open>super()\<close> it returns \<open>None\<close>.\<close>
  "BaseTask_get_urgency_level clk t = None"

definition RegularTask_get_urgency_level :: "clock \<Rightarrow> task \<Rightarrow> string" where
  "RegularTask_get_urgency_level clk t =
     (if completed t then ''completed''
      else if is_overdue clk t then ''overdue''
      else
        (let days_left = get_days_until_deadline clk t in
         if priority t = 1 then
           (if days_left \<le> 1 then ''critical''
            else if days_left \<le> 3 then ''high''
            else ''medium'')
         else if priority t = 2 then
           (if days_left \<le> 0 then ''critical''
            else if days_left \<le> 2 then ''high''
            else if days_left \<le> 5 then ''medium''
            else ''low'')
         else
           (if days_left \<le> 0 then ''high''
            else if days_left \<le> 3 then ''medium''
            else ''low'')))"

definition RecurringTask_get_urgency_level :: "clock \<Rightarrow> task \<Rightarrow> string option" where
  \<comment> \<open>\<open>super()\<close> of \<open>RecurringTask\<close> is \<open>BaseTask\<close>.\<close>
  "RecurringTask_get_urgency_level clk t =
     (let base_urgency = BaseTask_get_urgency_level clk t in
      if base_urgency = Some ''critical'' then Some ''high''
      else if base_urgency = Some ''high'' then Some ''medium''
      else base_urgency)"

definition get_urgency_level :: "clock \<Rightarrow> task \<Rightarrow> string option" where
  \<comment> \<open>method dispatch on the object's class\<close>
  "get_urgency_level clk t =
     (if isinstance_RecurringTask t then RecurringTask_get_urgency_level clk t
      else Some (RegularTask_get_urgency_level clk t))"

definition get_next_deadline :: "task \<Rightarrow> error + date" where
  \<comment> \<open>\<open>RecurringTask.get_next_deadline\<close>; a \<open>RegularTask\<close> has no such method.\<close>
  "get_next_deadline t =
     (case recurring t of
        None \<Rightarrow> Inl AttributeError
      | Some r \<Rightarrow>
          (if recurrence_type r = ''daily''
             then date_plus_days (deadline_date t) (recurrence_count r)
           else if recurrence_type r = ''weekly''
             then date_plus_weeks (deadline_date t) (recurrence_count r)
           else if recurrence_type r = ''monthly''
             then date_plus_days (deadline_date t) (30 * recurrence_count r)
           else Inr (deadline_date t)))"

definition reset_for_next_cycle :: "task \<Rightarrow> error + task" where
  \<comment> \<open>The first statement may raise, before anything is assigned.\<close>
  "reset_for_next_cycle t =
     (case get_next_deadline t of
        Inl e \<Rightarrow> Inl e
      | Inr d \<Rightarrow> Inr (t \<lparr> deadline_date := d, completed := False, completed_at := None \<rparr>))"

section \<open>Serialisation of a task (models/task.py)\<close>

text \<open>
  The values of the dictionary built by \<open>to_dict\<close>. The \<open>isoformat()\<close> strings are kept
  as the value they render. \<open>original_deadline.isoformat()\<close> on \<open>None\<close> raises
  \<open>AttributeError\<close>.
\<close>

datatype dict_value =
    VStr string
  | VInt int
  | VBool bool
  | VNone
  | IsoDate date
  | IsoTime time
  | IsoDateTime datetime

definition BaseTask_to_dict :: "task \<Rightarrow> (string \<times> dict_value) list" where
  "BaseTask_to_dict t =
     [ (''task_id'', VStr (task_id t)),
       (''title'', VStr (title t)),
       (''description'', VStr (description t)),
       (''deadline_date'', IsoDate (deadline_date t)),
       (''deadline_time'', (case deadline_time t of Some x \<Rightarrow> IsoTime x | None \<Rightarrow> VNone)),
       (''priority'', VInt (priority t)),
       (''category'', VStr (category t)),
       (''completed'', VBool (completed t)),
       (''created_at'', IsoDateTime (created_at t)),
       (''completed_at'', (case completed_at t of Some x \<Rightarrow> IsoDateTime x | None \<Rightarrow> VNone)),
       (''task_type'', VStr (if isinstance_RecurringTask t then ''RecurringTask'' else ''RegularTask'')) ]"

definition dict_update :: "(string \<times> dict_value) list \<Rightarrow> (string \<times> dict_value) list
     \<Rightarrow> (string \<times> dict_value) list" where
  \<comment> \<open>\<open>dict.update\<close>: present keys keep their place, new keys are appended in order.\<close>
  "dict_update d kvs = foldl (\<lambda>acc (k, v). AList.update k v acc) d kvs"

definition to_dict :: "task \<Rightarrow> error + (string \<times> dict_value) list" where
  \<comment> \<open>\<open>RecurringTask.to_dict\<close> for a recurring task, \<open>BaseTask.to_dict\<close> otherwise.\<close>
  "to_dict t =
     (case recurring t of
        None \<Rightarrow> Inr (BaseTask_to_dict t)
      | Some r \<Rightarrow>
          (let data = BaseTask_to_dict t in
           case original_deadline r of
             None \<Rightarrow> Inl AttributeError
           | Some od \<Rightarrow>
               Inr (dict_update data
                      [ (''recurrence_type'', VStr (recurrence_type r)),
                        (''recurrence_count'', VInt (recurrence_count r)),
                        (''original_deadline'', IsoDate od) ])))"

section \<open>Task store (models/task_manager.py)\<close>

text \<open>
  The store is the list \<open>self.tasks\<close>. \<open>save_data\<close> catches every exception and changes
  nothing in memory, so it is left out. An operation that mutates a task found by
  \<open>get_task_by_id\<close> mutates the first object with that id, in place: the model updates the
  list at that position.
\<close>

record task_manager =
  tasks :: "task list"

definition get_task_by_id :: "task_manager \<Rightarrow> string \<Rightarrow> task option" where
  "get_task_by_id tm tid = find (\<lambda>task. task_id task = tid) (tasks tm)"

fun position_by_id :: "task list \<Rightarrow> string \<Rightarrow> nat option" where
  \<comment> \<open>where in the list the object returned by \<open>get_task_by_id\<close> sits\<close>
  "position_by_id [] tid = None"
| "position_by_id (task # rest) tid =
     (if task_id task = tid then Some 0 else map_option Suc (position_by_id rest tid))"

definition add_task ::
  "clock \<Rightarrow> string \<Rightarrow> task_manager \<Rightarrow> string \<Rightarrow> string \<Rightarrow> date option \<Rightarrow> time option \<Rightarrow> int \<Rightarrow> string
     \<Rightarrow> string \<Rightarrow> string option \<Rightarrow> int option \<Rightarrow> bool \<times> task_manager" where
  \<comment> \<open>The last two arguments are the entries of \<open>kwargs\<close>, if given.\<close>
  "add_task clk uuid tm ttl descr dd dt prio cat task_type kw_rtype kw_rcount =
     (let task =
        (if task_type = ''recurring''
         then RecurringTask_init clk uuid ttl descr dd dt prio cat
                (case kw_rtype of None \<Rightarrow> ''daily'' | Some x \<Rightarrow> x)
                (case kw_rcount of None \<Rightarrow> 1 | Some x \<Rightarrow> x)
         else RegularTask_init clk uuid ttl descr dd dt prio cat)
      in (True, tm \<lparr> tasks := tasks tm @ [task] \<rparr>))"

definition deadline_key :: "task \<Rightarrow> date \<times> time" where
  \<comment> \<open>\<open>lambda t: (t.deadline_date, t.deadline_time or time.min)\<close>; a \<open>time\<close> is always truthy.\<close>
  "deadline_key t = (deadline_date t, (case deadline_time t of None \<Rightarrow> time_min | Some x \<Rightarrow> x))"

definition sort_by_deadline :: "task list \<Rightarrow> task list" where
  \<comment> \<open>\<open>sorted(..., key=...)\<close> is a stable sort, as \<open>sort_key\<close> is.\<close>
  "sort_by_deadline ts = sort_key deadline_key ts"

definition get_all_tasks :: "task_manager \<Rightarrow> task list" where
  "get_all_tasks tm = sort_by_deadline (tasks tm)"

definition get_tasks_by_date :: "task_manager \<Rightarrow> date \<Rightarrow> task list" where
  "get_tasks_by_date tm target_date = filter (\<lambda>task. deadline_date task = target_date) (tasks tm)"

definition get_upcoming_tasks :: "clock \<Rightarrow> task_manager \<Rightarrow> int \<Rightarrow> error + task list" where
  "get_upcoming_tasks clk tm days =
     (case date_plus_days (today clk) days of
        Inl e \<Rightarrow> Inl e
      | Inr future_date \<Rightarrow>
          (let upcoming =
                 filter (\<lambda>task. today clk \<le> deadline_date task \<and> deadline_date task \<le> future_date
                                  \<and> \<not> completed task) (tasks tm)
           in Inr (sort_by_deadline upcoming)))"

definition get_overdue_tasks :: "clock \<Rightarrow> task_manager \<Rightarrow> task list" where
  "get_overdue_tasks clk tm = filter (is_overdue clk) (tasks tm)"

definition get_completed_tasks :: "task_manager \<Rightarrow> task list" where
  "get_completed_tasks tm = filter completed (tasks tm)"

definition get_pending_tasks :: "task_manager \<Rightarrow> task list" where
  "get_pending_tasks tm = filter (\<lambda>task. \<not> completed task) (tasks tm)"

definition handle_recurring_task_completion ::
  "clock \<Rightarrow> string \<Rightarrow> task_manager \<Rightarrow> task \<Rightarrow> error + task_manager" where
  \<comment> \<open>\<open>uuid\<close> is the id drawn for the new task.\<close>
  "handle_recurring_task_completion clk uuid tm recurring_task =
     (case recurring recurring_task of
        None \<Rightarrow> Inl AttributeError
      | Some r \<Rightarrow>
          (case get_next_deadline recurring_task of
             Inl e \<Rightarrow> Inl e
           | Inr next_deadline \<Rightarrow>
               (let next_task =
                      RecurringTask_init clk uuid (title recurring_task) (description recurring_task)
                        (Some next_deadline) (deadline_time recurring_task)
                        (priority recurring_task) (category recurring_task)
                        (recurrence_type r) (recurrence_count r)
                in Inr (tm \<lparr> tasks := tasks tm @ [next_task] \<rparr>))))"

definition mark_completed ::
  "clock \<Rightarrow> string \<Rightarrow> task_manager \<Rightarrow> string \<Rightarrow> (error \<times> task_manager) + (bool \<times> task_manager)" where
  \<comment> \<open>An exception of the recurrence step leaves the store as it is by then: the task
      already marked completed, nothing appended.\<close>
  "mark_completed clk uuid tm tid =
     (case position_by_id (tasks tm) tid of
        None \<Rightarrow> Inr (False, tm)
      | Some i \<Rightarrow>
          (let task = task_mark_completed clk (tasks tm ! i);
               tm1 = tm \<lparr> tasks := (tasks tm)[i := task] \<rparr>
           in if isinstance_RecurringTask task
              then (case handle_recurring_task_completion clk uuid tm1 task of
                      Inl e \<Rightarrow> Inl (e, tm1)
                    | Inr tm2 \<Rightarrow> Inr (True, tm2))
              else Inr (True, tm1)))"

definition delete_task :: "task_manager \<Rightarrow> string \<Rightarrow> bool \<times> task_manager" where
  \<comment> \<open>\<open>list.remove\<close> compares by identity here, so it removes the object found.\<close>
  "delete_task tm tid =
     (case position_by_id (tasks tm) tid of
        None \<Rightarrow> (False, tm)
      | Some i \<Rightarrow> (True, tm \<lparr> tasks := take i (tasks tm) @ drop (Suc i) (tasks tm) \<rparr>))"

text \<open>
  The keyword arguments of \<open>update_task\<close>, one constructor per data attribute with a value
  of the attribute's type, and \<open>Set_other\<close> for a key that names no attribute.
  \<open>hasattr\<close> holds for the three recurrence attributes on a \<open>RecurringTask\<close> only.
\<close>

datatype kwarg =
    Set_task_id string
  | Set_title string
  | Set_description string
  | Set_deadline_date date
  | Set_deadline_time "time option"
  | Set_priority int
  | Set_category string
  | Set_completed bool
  | Set_created_at datetime
  | Set_completed_at "datetime option"
  | Set_recurrence_type string
  | Set_recurrence_count int
  | Set_original_deadline "date option"
  | Set_other string

fun setattr_if_hasattr :: "task \<Rightarrow> kwarg \<Rightarrow> task" where
  "setattr_if_hasattr t (Set_task_id v) = t \<lparr> task_id := v \<rparr>"
| "setattr_if_hasattr t (Set_title v) = t \<lparr> title := v \<rparr>"
| "setattr_if_hasattr t (Set_description v) = t \<lparr> description := v \<rparr>"
| "setattr_if_hasattr t (Set_deadline_date v) = t \<lparr> deadline_date := v \<rparr>"
| "setattr_if_hasattr t (Set_deadline_time v) = t \<lparr> deadline_time := v \<rparr>"
| "setattr_if_hasattr t (Set_priority v) = t \<lparr> priority := v \<rparr>"
| "setattr_if_hasattr t (Set_category v) = t \<lparr> category := v \<rparr>"
| "setattr_if_hasattr t (Set_completed v) = t \<lparr> completed := v \<rparr>"
| "setattr_if_hasattr t (Set_created_at v) = t \<lparr> created_at := v \<rparr>"
| "setattr_if_hasattr t (Set_completed_at v) = t \<lparr> completed_at := v \<rparr>"
| "setattr_if_hasattr t (Set_recurrence_type v) =
     (case recurring t of None \<Rightarrow> t | Some r \<Rightarrow> t \<lparr> recurring := Some (r \<lparr> recurrence_type := v \<rparr>) \<rparr>)"
| "setattr_if_hasattr t (Set_recurrence_count v) =
     (case recurring t of None \<Rightarrow> t | Some r \<Rightarrow> t \<lparr> recurring := Some (r \<lparr> recurrence_count := v \<rparr>) \<rparr>)"
| "setattr_if_hasattr t (Set_original_deadline v) =
     (case recurring t of None \<Rightarrow> t | Some r \<Rightarrow> t \<lparr> recurring := Some (r \<lparr> original_deadline := v \<rparr>) \<rparr>)"
| "setattr_if_hasattr t (Set_other k) = t"

definition update_task :: "task_manager \<Rightarrow> string \<Rightarrow> kwarg list \<Rightarrow> bool \<times> task_manager" where
  "update_task tm tid kwargs =
     (case position_by_id (tasks tm) tid of
        None \<Rightarrow> (False, tm)
      | Some i \<Rightarrow>
          (True, tm \<lparr> tasks := (tasks tm)[i := foldl setattr_if_hasattr (tasks tm ! i) kwargs] \<rparr>))"

definition cleanup_completed_tasks :: "clock \<Rightarrow> task_manager \<Rightarrow> int \<Rightarrow> error + (nat \<times> task_manager)" where
  \<comment> \<open>A \<open>datetime\<close> is always truthy, so \<open>and task.completed_at\<close> tests for \<open>None\<close>.\<close>
  "cleanup_completed_tasks clk tm days_old =
     (case datetime_minus_days (datetime_now clk) days_old of
        Inl e \<Rightarrow> Inl e
      | Inr cutoff_date \<Rightarrow>
          (let initial_count = length (tasks tm);
               kept = filter (\<lambda>task. \<not> (completed task \<and>
                         (case completed_at task of None \<Rightarrow> False | Some done_at \<Rightarrow> done_at < cutoff_date)))
                       (tasks tm)
           in Inr (initial_count - length kept, tm \<lparr> tasks := kept \<rparr>)))"

text \<open>
  \<open>get_statistics\<close>. \<open>completed_tasks / total_tasks * 100\<close> is a true division of two
  ints followed by a float multiplication (the int 100 converts exactly), evaluated only
  when \<open>total_tasks > 0\<close>; the other branch is the int 0.
  \<open>priority_stats[task.priority] += 1\<close> raises \<open>KeyError\<close> for a priority other than
  1, 2 and 3.
\<close>

record statistics =
  total_tasks :: nat
  completed_tasks :: nat
  pending_tasks :: nat
  overdue_tasks :: nat
  completion_rate :: rat
  category_stats :: "string \<rightharpoonup> nat"
  priority_stats :: "int \<rightharpoonup> nat"

fun count_categories :: "(string \<rightharpoonup> nat) \<Rightarrow> task list \<Rightarrow> (string \<rightharpoonup> nat)" where
  "count_categories stats [] = stats"
| "count_categories stats (task # rest) =
     count_categories
       (stats(category task \<mapsto> (case stats (category task) of None \<Rightarrow> 0 | Some c \<Rightarrow> c) + 1)) rest"

fun count_priorities :: "(int \<rightharpoonup> nat) \<Rightarrow> task list \<Rightarrow> error + (int \<rightharpoonup> nat)" where
  "count_priorities stats [] = Inr stats"
| "count_priorities stats (task # rest) =
     (case stats (priority task) of
        None \<Rightarrow> Inl KeyError
      | Some c \<Rightarrow> count_priorities (stats(priority task \<mapsto> c + 1)) rest)"

definition get_statistics :: "clock \<Rightarrow> task_manager \<Rightarrow> error + statistics" where
  "get_statistics clk tm =
     (let total = length (tasks tm);
          n_completed = length (get_completed_tasks tm);
          n_pending = length (get_pending_tasks tm);
          n_overdue = length (get_overdue_tasks clk tm)
      in case (if total > 0
               then (case int_truediv (int n_completed) (int total) of
                       Inl e \<Rightarrow> Inl e
                     | Inr ratio \<Rightarrow> Inr (float_mul ratio 100))
               else Inr 0) of
           Inl e \<Rightarrow> Inl e
         | Inr rate \<Rightarrow>
             (let by_category = count_categories Map.empty (tasks tm)
              in case count_priorities [1 \<mapsto> 0, 2 \<mapsto> 0, 3 \<mapsto> 0] (tasks tm) of
                   Inl e \<Rightarrow> Inl e
                 | Inr by_priority \<Rightarrow>
                     Inr \<lparr> total_tasks = total, completed_tasks = n_completed,
                           pending_tasks = n_pending, overdue_tasks = n_overdue,
                           completion_rate = rate, category_stats = by_category,
                           priority_stats = by_priority \<rparr>))"

section \<open>Reminder aggregator (models/reminder_system.py)\<close>

record reminder_settings =
  urgent_threshold :: int
  upcoming_threshold :: int
  enable_sound :: bool
  enable_notifications :: bool

definition default_settings :: reminder_settings where
  "default_settings =
     \<lparr> urgent_threshold = 0, upcoming_threshold = 3, enable_sound = False,
       enable_notifications = True \<rparr>"

fun unique_by_id :: "string set \<Rightarrow> task list \<Rightarrow> task list" where
  \<comment> \<open>the loop over \<open>urgent_tasks\<close> with the set \<open>seen_ids\<close>\<close>
  "unique_by_id seen_ids [] = []"
| "unique_by_id seen_ids (task # rest) =
     (if task_id task \<notin> seen_ids
      then task # unique_by_id (insert (task_id task) seen_ids) rest
      else unique_by_id seen_ids rest)"

definition urgent_key :: "task \<Rightarrow> date \<times> int" where
  \<comment> \<open>\<open>lambda t: (t.deadline_date, t.priority)\<close>\<close>
  "urgent_key t = (deadline_date t, priority t)"

definition get_urgent_reminders :: "clock \<Rightarrow> task_manager \<Rightarrow> task list" where
  "get_urgent_reminders clk tm =
     (let today_tasks = filter (\<lambda>task. deadline_date task = today clk) (get_pending_tasks tm);
          overdue = get_overdue_tasks clk tm;
          urgent_tasks = today_tasks @ overdue;
          unique_urgent = unique_by_id {} urgent_tasks
      in sort_key urgent_key unique_urgent)"

definition get_upcoming_reminders :: "reminder_settings \<Rightarrow> clock \<Rightarrow> task_manager \<Rightarrow> error + task list" where
  "get_upcoming_reminders settings clk tm =
     (let threshold = upcoming_threshold settings in
      case get_upcoming_tasks clk tm threshold of
        Inl e \<Rightarrow> Inl e
      | Inr upcoming_tasks \<Rightarrow>
          Inr (filter (\<lambda>task. deadline_date task \<noteq> today clk) upcoming_tasks))"

section \<open>Properties stated by the specification\<close>

definition valid_date :: "date \<Rightarrow> bool" where
  \<comment> \<open>the ordinals of \<open>date.min\<close> .. \<open>date.max\<close>\<close>
  "valid_date d = (1 \<le> d \<and> d \<le> 3652059)"

definition in_window :: "clock \<Rightarrow> int \<Rightarrow> task \<Rightarrow> bool" where
  \<comment> \<open>not completed and due within \<open>n\<close> days from today, today included\<close>
  "in_window clk n t =
     (today clk \<le> deadline_date t \<and> deadline_date t \<le> today clk + n \<and> \<not> completed t)"

subsection \<open>Sample data\<close>

text \<open>The clock reads 2024-01-01 (ordinal 738886), 12:00.\<close>

definition sample_clock :: clock where
  "sample_clock = \<lparr> today = 738886, time_now = 43200000000, str_lower = ascii_lower \<rparr>"

definition sample_regular :: task where
  "sample_regular =
     RegularTask_init sample_clock ''id-1'' ''Report'' '''' (Some 738888) None 1 ''work''"

definition sample_recurring :: task where
  "sample_recurring =
     RecurringTask_init sample_clock ''id-r'' ''Water plants'' ''balcony'' (Some 738886) None 1 ''home''
       ''daily'' 3"

definition sample_urgent_recurring :: task where
  "sample_urgent_recurring =
     RecurringTask_init sample_clock ''id-u'' ''Pay rent'' '''' (Some 738887) None 1 ''home''
       ''monthly'' 1"

definition sample_done :: task where
  "sample_done =
     \<lparr> task_id = ''id-d'', title = ''Call bank'', description = '''', deadline_date = 738880,
       deadline_time = None, priority = 2, category = ''home'', completed = True,
       created_at = (738870, 0), completed_at = Some (738879, 36000000000), recurring = None \<rparr>"

definition sample_today :: task where
  "sample_today =
     \<lparr> task_id = ''id-t'', title = ''Submit form'', description = '''', deadline_date = 738886,
       deadline_time = Some 32400000000, priority = 1, category = ''work'', completed = False,
       created_at = (738870, 0), completed_at = None, recurring = None \<rparr>"

definition sample_later :: task where
  "sample_later =
     \<lparr> task_id = ''id-l'', title = ''Book flights'', description = '''', deadline_date = 738888,
       deadline_time = None, priority = 3, category = ''travel'', completed = False,
       created_at = (738870, 0), completed_at = None, recurring = None \<rparr>"

definition sample_overdue :: task where
  "sample_overdue =
     \<lparr> task_id = ''id-o'', title = ''Renew passport'', description = '''', deadline_date = 738885,
       deadline_time = None, priority = 2, category = ''home'', completed = False,
       created_at = (738870, 0), completed_at = None, recurring = None \<rparr>"

definition sample_store :: task_manager where
  "sample_store = \<lparr> tasks = [sample_later, sample_done, sample_today, sample_overdue] \<rparr>"

definition sample_undated_recurring :: task where
  "sample_undated_recurring =
     RecurringTask_init sample_clock ''id-n'' ''Backup'' '''' None None 2 ''work'' ''weekly'' 1"

definition completed_at_invariant :: "task \<Rightarrow> bool" where
  \<comment> \<open>\<open>completed_at\<close> is set iff \<open>completed\<close> is true\<close>
  "completed_at_invariant t = ((completed_at t \<noteq> None) = completed t)"

definition store_invariant :: "task_manager \<Rightarrow> bool" where
  "store_invariant tm = list_all completed_at_invariant (tasks tm)"

fun touches_completion :: "kwarg \<Rightarrow> bool" where
  "touches_completion (Set_completed v) = True"
| "touches_completion (Set_completed_at v) = True"
| "touches_completion k = False"

definition sample_recurring_store :: task_manager where
  "sample_recurring_store = \<lparr> tasks = [sample_later, sample_recurring] \<rparr>"

definition sample_single_store :: task_manager where
  "sample_single_store = \<lparr> tasks = [sample_later] \<rparr>"

definition sample_today_low :: task where
  "sample_today_low =
     \<lparr> task_id = ''id-w'', title = ''Water bill'', description = '''', deadline_date = 738886,
       deadline_time = None, priority = 3, category = ''home'', completed = False,
       created_at = (738870, 0), completed_at = None, recurring = None \<rparr>"

definition sample_later_timed :: task where
  "sample_later_timed =
     \<lparr> task_id = ''id-e'', title = ''Evening call'', description = '''', deadline_date = 738888,
       deadline_time = Some 64800000000, priority = 1, category = ''work'', completed = False,
       created_at = (738870, 0), completed_at = None, recurring = None \<rparr>"

definition sample_urgent_store :: task_manager where
  "sample_urgent_store =
     \<lparr> tasks = [sample_today_low, sample_later, sample_done, sample_today, sample_overdue] \<rparr>"

definition sample_upcoming_store :: task_manager where
  "sample_upcoming_store =
     \<lparr> tasks = [sample_later_timed, sample_later, sample_done, sample_today, sample_overdue] \<rparr>"

definition sample_store20 :: task_manager where
  \<comment> \<open>11 of 20 tasks completed\<close>
  "sample_store20 = \<lparr> tasks = replicate 11 sample_done @ replicate 9 sample_later \<rparr>"

definition sample_renamed_store :: task_manager where
  \<comment> \<open>a recurring task whose category was set through \<open>update_task\<close>\<close>
  "sample_renamed_store =
     snd (update_task \<lparr> tasks = [sample_recurring] \<rparr> ''id-r'' [Set_category ''HOME Gym''])"

definition sample_last_day :: task where
  \<comment> \<open>due on 9999-12-31, the last date\<close>
  "sample_last_day =
     RecurringTask_init sample_clock ''id-z'' ''Archive'' '''' (Some 3652059) None 2 ''work''
       ''daily'' 1"

definition sample_last_day_store :: task_manager where
  "sample_last_day_store = \<lparr> tasks = [sample_last_day] \<rparr>"

section \<open>Helper lemmas\<close>

lemma ascii_lower_home: "ascii_lower ''home'' = ''home''"
  by code_simp

lemma ascii_lower_work: "ascii_lower ''work'' = ''work''"
  by code_simp

lemma sample_regular_fields:
  "completed sample_regular = False" "priority sample_regular = 1"
  "deadline_date sample_regular = 738888" "deadline_time sample_regular = None"
  by (simp_all add: sample_regular_def RegularTask_init_def BaseTask_init_def)

lemma sample_recurring_fields:
  "task_id sample_recurring = ''id-r''" "title sample_recurring = ''Water plants''"
  "description sample_recurring = ''balcony''"
  "deadline_date sample_recurring = 738886" "deadline_time sample_recurring = None"
  "priority sample_recurring = 1" "category sample_recurring = ''home''"
  "completed sample_recurring = False" "completed_at sample_recurring = None"
  "created_at sample_recurring = (738886, 43200000000)"
  "recurring sample_recurring =
     Some \<lparr> recurrence_type = ''daily'', recurrence_count = 3, original_deadline = Some 738886 \<rparr>"
  by (simp_all add: sample_recurring_def RecurringTask_init_def BaseTask_init_def
        sample_clock_def datetime_now_def ascii_lower_home)

lemma date_plus_days_valid:
  "valid_date d \<Longrightarrow>
     date_plus_days d n = (if valid_date (d + n) then Inr (d + n) else Inl OverflowError)"
  by (auto simp add: date_plus_days_def timedelta_def date_add_def valid_date_def)

lemma date_plus_weeks_valid:
  "valid_date d \<Longrightarrow>
     date_plus_weeks d n = (if valid_date (d + 7 * n) then Inr (d + 7 * n) else Inl OverflowError)"
  by (auto simp add: date_plus_weeks_def timedelta_def date_add_def valid_date_def)

lemma sample_today_valid: "valid_date (today sample_clock)"
  by (simp add: valid_date_def sample_clock_def)

subsection \<open>Statistics\<close>

lemma count_priorities_total:
  "dom stats = {1, 2, 3} \<Longrightarrow> \<forall>t\<in>set ts. priority t \<in> {1, 2, 3} \<Longrightarrow>
     \<exists>stats'. count_priorities stats ts = Inr stats' \<and> dom stats' = {1, 2, 3}"
proof (induction ts arbitrary: stats)
  case Nil
  then show ?case by simp
next
  case (Cons t ts)
  from Cons.prems have "priority t \<in> dom stats" by simp
  then obtain c where c: "stats (priority t) = Some c" by blast
  have d: "dom (stats(priority t \<mapsto> c + 1)) = {1, 2, 3}"
    using Cons.prems by auto
  have r: "\<forall>u\<in>set ts. priority u \<in> {1, 2, 3}"
    using Cons.prems(2) by simp
  from Cons.IH [OF d r] obtain stats' where
    "count_priorities (stats(priority t \<mapsto> c + 1)) ts = Inr stats'" "dom stats' = {1, 2, 3}"
    by blast
  with c show ?case by simp
qed

lemma one_below_overflow: "(1::rat) < float_overflow_bound"
  by (simp add: float_overflow_bound_def)

lemma int_truediv_Inr:
  "int_truediv a b = Inr q \<Longrightarrow> q = round_binary64 (of_int a / of_int b)"
  by (auto simp add: int_truediv_def split: if_splits)

lemma int_truediv_fraction:
  assumes "0 < t" and "c \<le> t"
  shows "int_truediv (int c) (int t) = Inr (round_binary64 (of_nat c / of_nat t))"
proof -
  have "(of_nat c / of_nat t :: rat) \<le> 1" using assms by simp
  moreover have "0 \<le> (of_nat c / of_nat t :: rat)" by simp
  ultimately have "\<bar>of_nat c / of_nat t :: rat\<bar> \<le> 1" by simp
  with one_below_overflow have "\<not> float_overflow_bound \<le> \<bar>of_nat c / of_nat t :: rat\<bar>"
    by linarith
  with assms(1) show ?thesis by (simp add: int_truediv_def)
qed

lemma statistics_empty:
  "get_statistics clk \<lparr> tasks = [] \<rparr> =
     Inr \<lparr> total_tasks = 0, completed_tasks = 0, pending_tasks = 0, overdue_tasks = 0,
           completion_rate = 0, category_stats = Map.empty,
           priority_stats = [1 \<mapsto> 0, 2 \<mapsto> 0, 3 \<mapsto> 0] \<rparr>"
  by (simp add: get_statistics_def get_completed_tasks_def get_pending_tasks_def
        get_overdue_tasks_def)

lemma statistics_rate:
  assumes "get_statistics clk tm = Inr s"
  shows "total_tasks s = length (tasks tm)
     \<and> completed_tasks s = length (filter completed (tasks tm))
     \<and> (total_tasks s > 0 \<longrightarrow>
          completion_rate s =
            float_mul (round_binary64 (of_nat (completed_tasks s) / of_nat (total_tasks s))) 100)"
proof (cases "tasks tm = []")
  case True
  with assms show ?thesis
    by (auto simp add: get_statistics_def get_completed_tasks_def Let_def split: sum.splits)
next
  case False
  have le: "length (filter completed (tasks tm)) \<le> length (tasks tm)" by simp
  from False have pos: "0 < length (tasks tm)" by simp
  note q = int_truediv_fraction [OF pos le]
  from assms False show ?thesis
    by (auto simp add: get_statistics_def get_completed_tasks_def Let_def q split: sum.splits)
qed

lemma statistics_returns:
  assumes "\<forall>t\<in>set (tasks tm). priority t \<in> {1, 2, 3}"
  shows "\<exists>s. get_statistics clk tm = Inr s \<and> dom (priority_stats s) = {1, 2, 3}"
proof -
  have "dom [1 \<mapsto> 0::nat, 2 \<mapsto> 0, (3::int) \<mapsto> 0] = {1, 2, 3}" by auto
  from count_priorities_total [OF this assms]
  obtain m where m: "count_priorities [1 \<mapsto> 0, 2 \<mapsto> 0, 3 \<mapsto> 0] (tasks tm) = Inr m"
    "dom m = {1, 2, 3}"
    by blast
  show ?thesis
  proof (cases "tasks tm = []")
    case True
    with m show ?thesis by (simp add: get_statistics_def Let_def)
  next
    case False
    have le: "length (filter completed (tasks tm)) \<le> length (tasks tm)" by simp
    from False have pos: "0 < length (tasks tm)" by simp
    note q = int_truediv_fraction [OF pos le]
    from m False show ?thesis
      by (simp add: get_statistics_def get_completed_tasks_def Let_def q)
  qed
qed

lemma sample_rate: "float_mul (round_binary64 (11 / 20)) 100 = 7740561859543041 / 140737488355328"
  by code_simp

subsection \<open>Deduplication by id\<close>

lemma unique_by_id_ids:
  "task_id ` set (unique_by_id seen xs) = task_id ` set xs - seen"
  by (induction xs arbitrary: seen) auto

lemma unique_by_id_subset: "set (unique_by_id seen xs) \<subseteq> set xs"
  by (induction xs arbitrary: seen) auto

lemma unique_by_id_not_seen: "t \<in> set (unique_by_id seen xs) \<Longrightarrow> task_id t \<notin> seen"
  using unique_by_id_ids [of seen xs] by blast

lemma unique_by_id_distinct: "distinct (map task_id (unique_by_id seen xs))"
proof (induction xs arbitrary: seen)
  case Nil
  then show ?case by simp
next
  case (Cons x xs)
  show ?case
  proof (cases "task_id x \<in> seen")
    case True
    with Cons.IH show ?thesis by simp
  next
    case False
    have "task_id x \<notin> task_id ` set (unique_by_id (insert (task_id x) seen) xs)"
      by (simp add: unique_by_id_ids)
    with False Cons.IH show ?thesis by simp
  qed
qed

lemma unique_by_id_first:
  "t \<in> set (unique_by_id seen xs) \<Longrightarrow> find (\<lambda>u. task_id u = task_id t) xs = Some t"
proof (induction xs arbitrary: seen)
  case Nil
  then show ?case by simp
next
  case (Cons x xs)
  show ?case
  proof (cases "task_id x \<in> seen")
    case True
    with Cons.prems have t: "t \<in> set (unique_by_id seen xs)" by simp
    then have "task_id t \<notin> seen" by (rule unique_by_id_not_seen)
    with True have "task_id x \<noteq> task_id t" by auto
    with Cons.IH [OF t] show ?thesis by simp
  next
    case False
    with Cons.prems have "t = x \<or> t \<in> set (unique_by_id (insert (task_id x) seen) xs)" by simp
    then show ?thesis
    proof
      assume "t = x"
      then show ?thesis by simp
    next
      assume t: "t \<in> set (unique_by_id (insert (task_id x) seen) xs)"
      then have "task_id t \<notin> insert (task_id x) seen" by (rule unique_by_id_not_seen)
      then have "task_id x \<noteq> task_id t" by auto
      with Cons.IH [OF t] show ?thesis by simp
    qed
  qed
qed

lemma unique_by_id_inj:
  "inj_on task_id (set xs) \<Longrightarrow> set (unique_by_id seen xs) = {x \<in> set xs. task_id x \<notin> seen}"
proof (induction xs arbitrary: seen)
  case Nil
  then show ?case by simp
next
  case (Cons x xs)
  from Cons.prems have inj: "inj_on task_id (set xs)" by (simp add: inj_on_def)
  from Cons.prems have same: "\<And>y. y \<in> set xs \<Longrightarrow> task_id y = task_id x \<Longrightarrow> y = x"
    by (auto simp add: inj_on_def)
  show ?case
    using Cons.IH [OF inj] same by auto
qed

lemma sample_urgent:
  "get_urgent_reminders sample_clock sample_urgent_store =
     [sample_overdue, sample_today, sample_today_low]"
  by (simp add: get_urgent_reminders_def get_pending_tasks_def get_overdue_tasks_def
        sample_urgent_store_def sample_later_def sample_done_def sample_today_def
        sample_overdue_def sample_today_low_def sample_clock_def is_overdue_def urgent_key_def
        sort_key_def)

subsection \<open>Upcoming tasks\<close>

lemma get_upcoming_tasks_valid:
  "valid_date (today clk) \<Longrightarrow>
     get_upcoming_tasks clk tm n =
       (if valid_date (today clk + n)
        then Inr (sort_key deadline_key (filter (in_window clk n) (tasks tm)))
        else Inl OverflowError)"
  by (simp add: get_upcoming_tasks_def date_plus_days_valid in_window_def [abs_def]
        sort_by_deadline_def)

lemma deadline_key_le:
  "deadline_key a \<le> deadline_key b \<longleftrightarrow>
     deadline_date a < deadline_date b
     \<or> (deadline_date a = deadline_date b
         \<and> (case deadline_time a of None \<Rightarrow> 0 | Some x \<Rightarrow> x)
             \<le> (case deadline_time b of None \<Rightarrow> 0 | Some x \<Rightarrow> x))"
  by (cases "deadline_time a"; cases "deadline_time b")
     (auto simp add: deadline_key_def time_min_def)

lemma sort_key_deadline_order:
  "sorted_wrt
     (\<lambda>a b. deadline_date a < deadline_date b
            \<or> (deadline_date a = deadline_date b
                \<and> (case deadline_time a of None \<Rightarrow> 0 | Some x \<Rightarrow> x)
                    \<le> (case deadline_time b of None \<Rightarrow> 0 | Some x \<Rightarrow> x)))
     (sort_key deadline_key xs)"
proof -
  have "sorted (map deadline_key (sort_key deadline_key xs))" by simp
  then have "sorted_wrt (\<lambda>a b. deadline_key a \<le> deadline_key b) (sort_key deadline_key xs)"
    by (simp add: sorted_map)
  then show ?thesis by (simp only: deadline_key_le)
qed

section \<open>Task entity: urgency and overdue rules\<close>

text \<open>
  C1. For a Regular task, \<open>get_urgency_level\<close> is \<open>completed\<close> for a completed task and
  \<open>overdue\<close> for an overdue one, tested in that order; otherwise it follows the table on
  (priority, days left), where days left is \<open>deadline_date - today\<close>: priority 1 (High)
  gives critical up to 1 day, high up to 3, else medium; priority 2 (Medium) gives critical
  up to 0 days, high up to 2, medium up to 5, else low; priority 3 (Low) gives high up to
  0 days, medium up to 3, else low.
\<close>

theorem regular_urgency_table:
  "(completed t \<longrightarrow> RegularTask_get_urgency_level clk t = ''completed'')
   \<and> (\<not> completed t \<and> is_overdue clk t \<longrightarrow> RegularTask_get_urgency_level clk t = ''overdue'')
   \<and> get_days_until_deadline clk t = deadline_date t - today clk
   \<and> (\<not> completed t \<and> \<not> is_overdue clk t \<and> priority t = 1 \<longrightarrow>
        RegularTask_get_urgency_level clk t =
          (if deadline_date t - today clk \<le> 1 then ''critical''
           else if deadline_date t - today clk \<le> 3 then ''high''
           else ''medium''))
   \<and> (\<not> completed t \<and> \<not> is_overdue clk t \<and> priority t = 2 \<longrightarrow>
        RegularTask_get_urgency_level clk t =
          (if deadline_date t - today clk \<le> 0 then ''critical''
           else if deadline_date t - today clk \<le> 2 then ''high''
           else if deadline_date t - today clk \<le> 5 then ''medium''
           else ''low''))
   \<and> (\<not> completed t \<and> \<not> is_overdue clk t \<and> priority t = 3 \<longrightarrow>
        RegularTask_get_urgency_level clk t =
          (if deadline_date t - today clk \<le> 0 then ''high''
           else if deadline_date t - today clk \<le> 3 then ''medium''
           else ''low''))"
  by (simp add: RegularTask_get_urgency_level_def get_days_until_deadline_def)

theorem regular_urgency_table_witness:
  "\<not> completed sample_regular \<and> \<not> is_overdue sample_clock sample_regular
   \<and> priority sample_regular = 1
   \<and> deadline_date sample_regular - today sample_clock = 2
   \<and> RegularTask_get_urgency_level sample_clock sample_regular = ''high''"
proof -
  have a: "\<not> completed sample_regular" by (simp add: sample_regular_fields)
  have b: "\<not> is_overdue sample_clock sample_regular"
    by (simp add: is_overdue_def sample_regular_fields sample_clock_def)
  have c: "priority sample_regular = 1" by (simp add: sample_regular_fields)
  have d: "deadline_date sample_regular - today sample_clock = 2"
    by (simp add: sample_regular_fields sample_clock_def)
  from regular_urgency_table [of sample_regular sample_clock] a b c d
  have "RegularTask_get_urgency_level sample_clock sample_regular = ''high''" by simp
  with a b c d show ?thesis by simp
qed

text \<open>
  C2. The claim: a Recurring task's urgency is the Regular-task result demoted by one
  step. \<open>RecurringTask\<close> derives from \<open>BaseTask\<close>, so its \<open>super().get_urgency_level()\<close>
  is the abstract method, which returns \<open>None\<close>; neither comparison matches and \<open>None\<close> is
  returned. For a pending High-priority recurring task due tomorrow the Regular
  computation gives \<open>critical\<close>, so the claim asks for \<open>high\<close>; the code returns \<open>None\<close>.
\<close>

theorem recurring_urgency_is_none:
  "get_urgency_level sample_clock sample_urgent_recurring = None
   \<and> RegularTask_get_urgency_level sample_clock sample_urgent_recurring = ''critical''"
  by (simp add: get_urgency_level_def isinstance_RecurringTask_def RecurringTask_get_urgency_level_def
        BaseTask_get_urgency_level_def sample_urgent_recurring_def RecurringTask_init_def
        BaseTask_init_def RegularTask_get_urgency_level_def is_overdue_def sample_clock_def
        get_days_until_deadline_def)

text \<open>
  C3. \<open>is_overdue\<close> is false for a completed task whatever its deadline; for a pending task
  it is true when the deadline date is before today; when the deadline date is today it
  is true exactly when a deadline time is set and the current time is past it, so a task
  due today without a deadline time is not overdue; a pending task due later is not
  overdue.
\<close>

theorem is_overdue_rules:
  "(completed t \<longrightarrow> \<not> is_overdue clk t)
   \<and> (\<not> completed t \<and> deadline_date t < today clk \<longrightarrow> is_overdue clk t)
   \<and> (\<not> completed t \<and> deadline_date t = today clk \<longrightarrow>
        is_overdue clk t = (\<exists>dl. deadline_time t = Some dl \<and> dl < time_now clk))
   \<and> (deadline_date t = today clk \<and> deadline_time t = None \<longrightarrow> \<not> is_overdue clk t)
   \<and> (\<not> completed t \<and> today clk < deadline_date t \<longrightarrow> \<not> is_overdue clk t)"
  by (auto simp add: is_overdue_def split: option.splits)

theorem is_overdue_rules_witness:
  "completed sample_done \<and> \<not> is_overdue sample_clock sample_done
   \<and> \<not> completed sample_overdue \<and> deadline_date sample_overdue < today sample_clock
   \<and> is_overdue sample_clock sample_overdue
   \<and> \<not> completed sample_today \<and> deadline_date sample_today = today sample_clock
   \<and> is_overdue sample_clock sample_today"
proof -
  have a: "completed sample_done" by (simp add: sample_done_def)
  have b: "\<not> completed sample_overdue \<and> deadline_date sample_overdue < today sample_clock"
    by (simp add: sample_overdue_def sample_clock_def)
  have c: "\<not> completed sample_today \<and> deadline_date sample_today = today sample_clock"
    by (simp add: sample_today_def sample_clock_def)
  have d: "\<exists>dl. deadline_time sample_today = Some dl \<and> dl < time_now sample_clock"
    by (simp add: sample_today_def sample_clock_def)
  from is_overdue_rules [of sample_done sample_clock] a
  have 1: "\<not> is_overdue sample_clock sample_done" by blast
  from is_overdue_rules [of sample_overdue sample_clock] b
  have 2: "is_overdue sample_clock sample_overdue" by blast
  from is_overdue_rules [of sample_today sample_clock] c d
  have 3: "is_overdue sample_clock sample_today" by blast
  from a b c 1 2 3 show ?thesis by blast
qed

section \<open>Recurrence policy\<close>

text \<open>
  C8. For a Recurring task, \<open>get_next_deadline\<close> returns the deadline date plus
  \<open>recurrence_count\<close> days for \<open>daily\<close>, plus \<open>recurrence_count\<close> weeks (seven days each) for
  \<open>weekly\<close>, and plus \<open>30 * recurrence_count\<close> days for \<open>monthly\<close>, with no calendar-month
  arithmetic. The sum is Python's \<open>date + timedelta\<close>: it is the date with that ordinal,
  and where no such date exists the addition raises \<open>OverflowError\<close>.
\<close>

theorem next_deadline_by_unit:
  assumes "recurring t = Some r" and "valid_date (deadline_date t)"
  shows "(recurrence_type r = ''daily'' \<longrightarrow>
            get_next_deadline t = date_plus_days (deadline_date t) (recurrence_count r)
            \<and> get_next_deadline t =
              (if valid_date (deadline_date t + recurrence_count r)
               then Inr (deadline_date t + recurrence_count r) else Inl OverflowError))
       \<and> (recurrence_type r = ''weekly'' \<longrightarrow>
            get_next_deadline t = date_plus_weeks (deadline_date t) (recurrence_count r)
            \<and> get_next_deadline t =
              (if valid_date (deadline_date t + 7 * recurrence_count r)
               then Inr (deadline_date t + 7 * recurrence_count r) else Inl OverflowError))
       \<and> (recurrence_type r = ''monthly'' \<longrightarrow>
            get_next_deadline t = date_plus_days (deadline_date t) (30 * recurrence_count r)
            \<and> get_next_deadline t =
              (if valid_date (deadline_date t + 30 * recurrence_count r)
               then Inr (deadline_date t + 30 * recurrence_count r) else Inl OverflowError))"
  using assms
  by (simp add: get_next_deadline_def date_plus_days_valid date_plus_weeks_valid)

theorem next_deadline_by_unit_witness:
  "recurring sample_recurring =
     Some \<lparr> recurrence_type = ''daily'', recurrence_count = 3, original_deadline = Some 738886 \<rparr>
   \<and> valid_date (deadline_date sample_recurring)
   \<and> get_next_deadline sample_recurring = Inr 738889"
proof -
  have r: "recurring sample_recurring =
     Some \<lparr> recurrence_type = ''daily'', recurrence_count = 3, original_deadline = Some 738886 \<rparr>"
    by (rule sample_recurring_fields)
  have v: "valid_date (deadline_date sample_recurring)"
    by (simp add: sample_recurring_fields valid_date_def)
  have k: "recurrence_type \<lparr> recurrence_type = ''daily'', recurrence_count = 3,
               original_deadline = Some 738886 \<rparr> = ''daily''"
    by simp
  from next_deadline_by_unit [OF r v] k
  have "get_next_deadline sample_recurring =
          date_plus_days (deadline_date sample_recurring)
            (recurrence_count \<lparr> recurrence_type = ''daily'', recurrence_count = 3,
               original_deadline = Some 738886 \<rparr>)"
    by blast
  then have "get_next_deadline sample_recurring = Inr 738889"
    by (simp add: sample_recurring_fields date_plus_days_def timedelta_def date_add_def)
  with r v show ?thesis by simp
qed

text \<open>
  C10. A \<open>RecurringTask\<close> constructed without a deadline date gets today as its
  \<open>deadline_date\<close> from the inherited constructor, while \<open>original_deadline\<close> keeps the raw
  \<open>None\<close>; \<open>to_dict\<close> on it raises. On a freshly constructed \<open>RecurringTask\<close>, \<open>to_dict\<close>
  returns a record exactly when a deadline date was given.
\<close>

theorem recurring_without_deadline_to_dict_raises:
  "deadline_date (RecurringTask_init clk uuid ttl descr None dt prio cat rtype rcount) = today clk
   \<and> map_option original_deadline
        (recurring (RecurringTask_init clk uuid ttl descr None dt prio cat rtype rcount)) = Some None
   \<and> to_dict (RecurringTask_init clk uuid ttl descr None dt prio cat rtype rcount) = Inl AttributeError
   \<and> ((\<exists>data. to_dict (RecurringTask_init clk uuid ttl descr dd dt prio cat rtype rcount) = Inr data)
        = (dd \<noteq> None))"
  by (cases dd) (simp_all add: RecurringTask_init_def BaseTask_init_def to_dict_def)

theorem recurring_without_deadline_to_dict_raises_witness:
  "deadline_date sample_undated_recurring = 738886
   \<and> to_dict sample_undated_recurring = Inl AttributeError
   \<and> (\<exists>data. to_dict sample_recurring = Inr data)"
proof -
  note main = recurring_without_deadline_to_dict_raises
  have a: "deadline_date sample_undated_recurring = 738886"
    using main [of sample_clock "''id-n''" "''Backup''" "''''" None 2 "''work''" "''weekly''" 1]
    by (simp add: sample_undated_recurring_def sample_clock_def)
  have b: "to_dict sample_undated_recurring = Inl AttributeError"
    using main [of sample_clock "''id-n''" "''Backup''" "''''" None 2 "''work''" "''weekly''" 1]
    by (simp add: sample_undated_recurring_def)
  have c: "\<exists>data. to_dict sample_recurring = Inr data"
    using main [of sample_clock "''id-r''" "''Water plants''" "''balcony''" None 1 "''home''"
        "''daily''" 3 "Some 738886"]
    by (simp add: sample_recurring_def)
  from a b c show ?thesis by simp
qed

section \<open>Task store: statistics\<close>

text \<open>
  C9. On the empty store \<open>get_statistics\<close> returns a completion rate of 0 and a priority
  map with the keys 1, 2 and 3 at count 0; the division is not evaluated there, and it
  would raise, being 0 / 0. Whenever \<open>get_statistics\<close> returns on a store with at least
  one task, the completion rate is \<open>completed / total * 100\<close> as Python evaluates it: the
  quotient of the two counts rounded to a float, times 100, rounded to a float. It
  returns, with exactly the keys 1, 2 and 3 in the priority map, on every store whose
  priorities are among 1, 2 and 3. For 11 completed tasks of 20 the rate is
  7740561859543041 / 140737488355328, which Python prints as 55.00000000000001.
\<close>

theorem statistics_empty_store_and_rate:
  "get_statistics clk \<lparr> tasks = [] \<rparr> =
     Inr \<lparr> total_tasks = 0, completed_tasks = 0, pending_tasks = 0, overdue_tasks = 0,
           completion_rate = 0, category_stats = Map.empty,
           priority_stats = [1 \<mapsto> 0, 2 \<mapsto> 0, 3 \<mapsto> 0] \<rparr>
   \<and> int_truediv 0 0 = Inl ZeroDivisionError
   \<and> (\<forall>s. get_statistics clk tm = Inr s \<longrightarrow>
          total_tasks s = length (tasks tm)
          \<and> completed_tasks s = length (filter completed (tasks tm))
          \<and> (total_tasks s > 0 \<longrightarrow>
               completion_rate s =
                 float_mul (round_binary64 (of_nat (completed_tasks s) / of_nat (total_tasks s)))
                   100))
   \<and> ((\<forall>t\<in>set (tasks tm). priority t \<in> {1, 2, 3}) \<longrightarrow>
          (\<exists>s. get_statistics clk tm = Inr s \<and> dom (priority_stats s) = {1, 2, 3}))"
proof -
  have z: "int_truediv 0 0 = Inl ZeroDivisionError" by (simp add: int_truediv_def)
  from statistics_empty z statistics_rate statistics_returns show ?thesis by blast
qed

theorem statistics_empty_store_and_rate_witness:
  "set (map priority (tasks sample_store20)) = {2, 3}
   \<and> (\<exists>s. get_statistics sample_clock sample_store20 = Inr s \<and> total_tasks s = 20
          \<and> completed_tasks s = 11
          \<and> completion_rate s = 7740561859543041 / 140737488355328)"
proof -
  have f: "set (map priority (tasks sample_store20)) = {2, 3}"
    by (auto simp add: sample_store20_def sample_later_def sample_done_def)
  then have p: "\<forall>t\<in>set (tasks sample_store20). priority t \<in> {1, 2, 3}" by auto
  from statistics_empty_store_and_rate [of sample_clock sample_store20] p
  obtain s where s: "get_statistics sample_clock sample_store20 = Inr s" by blast
  with statistics_empty_store_and_rate [of sample_clock sample_store20]
  have "total_tasks s = length (tasks sample_store20)"
    "completed_tasks s = length (filter completed (tasks sample_store20))"
    "total_tasks s > 0 \<longrightarrow>
       completion_rate s =
         float_mul (round_binary64 (of_nat (completed_tasks s) / of_nat (total_tasks s))) 100"
    by blast+
  then have "total_tasks s = 20 \<and> completed_tasks s = 11
      \<and> completion_rate s = float_mul (round_binary64 (11 / 20)) 100"
    by (simp add: sample_store20_def sample_later_def sample_done_def)
  then have "total_tasks s = 20 \<and> completed_tasks s = 11
      \<and> completion_rate s = 7740561859543041 / 140737488355328"
    by (simp only: sample_rate)
  with f s show ?thesis by blast
qed

section \<open>Reminder aggregator\<close>

text \<open>
  C6. \<open>get_urgent_reminders\<close> returns the pending tasks due today together with the
  overdue tasks: every task returned is one of them, every id among them is returned,
  no id is returned twice, the task returned for an id is the first one with that id in
  the list of today's tasks followed by the overdue ones, and the result is in ascending
  order of deadline date and, among tasks of one deadline date, in ascending order of
  priority, so priority 1 (High) first. When the ids of the store are unique the result
  holds exactly the tasks of the union.
\<close>

theorem urgent_reminders_union_dedup_sorted:
  "distinct (map task_id (get_urgent_reminders clk tm))
   \<and> sorted_wrt
         (\<lambda>a b. deadline_date a < deadline_date b
                \<or> (deadline_date a = deadline_date b \<and> priority a \<le> priority b))
         (get_urgent_reminders clk tm)
   \<and> set (get_urgent_reminders clk tm) \<subseteq>
       {t \<in> set (tasks tm). \<not> completed t \<and> deadline_date t = today clk}
       \<union> {t \<in> set (tasks tm). is_overdue clk t}
   \<and> task_id ` set (get_urgent_reminders clk tm) =
       task_id ` ({t \<in> set (tasks tm). \<not> completed t \<and> deadline_date t = today clk}
                  \<union> {t \<in> set (tasks tm). is_overdue clk t})
   \<and> (\<forall>t\<in>set (get_urgent_reminders clk tm).
         find (\<lambda>u. task_id u = task_id t)
           (filter (\<lambda>t. \<not> completed t \<and> deadline_date t = today clk) (tasks tm)
            @ filter (is_overdue clk) (tasks tm)) = Some t)
   \<and> (distinct (map task_id (tasks tm)) \<longrightarrow>
         set (get_urgent_reminders clk tm) =
           {t \<in> set (tasks tm). \<not> completed t \<and> deadline_date t = today clk}
           \<union> {t \<in> set (tasks tm). is_overdue clk t})"
proof -
  define urgent where
    "urgent = filter (\<lambda>t. \<not> completed t \<and> deadline_date t = today clk) (tasks tm)
              @ filter (is_overdue clk) (tasks tm)"
  have res: "get_urgent_reminders clk tm = sort_key urgent_key (unique_by_id {} urgent)"
    by (simp add: get_urgent_reminders_def get_pending_tasks_def get_overdue_tasks_def
          urgent_def conj_commute)
  have su: "set urgent = {t \<in> set (tasks tm). \<not> completed t \<and> deadline_date t = today clk}
       \<union> {t \<in> set (tasks tm). is_overdue clk t}"
    by (auto simp add: urgent_def)
  have c1: "distinct (map task_id (get_urgent_reminders clk tm))"
  proof -
    have "distinct (map task_id (unique_by_id {} urgent))" by (rule unique_by_id_distinct)
    then have "inj_on task_id (set (unique_by_id {} urgent)) \<and> distinct (unique_by_id {} urgent)"
      by (simp add: distinct_map)
    then show ?thesis by (simp add: res distinct_map)
  qed
  have c2: "sorted_wrt
         (\<lambda>a b. deadline_date a < deadline_date b
                \<or> (deadline_date a = deadline_date b \<and> priority a \<le> priority b))
         (get_urgent_reminders clk tm)"
  proof -
    have "sorted (map urgent_key (get_urgent_reminders clk tm))" by (simp add: res)
    then have "sorted_wrt (\<lambda>a b. urgent_key a \<le> urgent_key b) (get_urgent_reminders clk tm)"
      by (simp add: sorted_map)
    then show ?thesis
      by (rule sorted_wrt_mono_rel [rotated]) (auto simp add: urgent_key_def)
  qed
  have c3: "set (get_urgent_reminders clk tm) \<subseteq> set urgent"
    using unique_by_id_subset [of "{}" urgent] by (simp add: res)
  have c4: "task_id ` set (get_urgent_reminders clk tm) = task_id ` set urgent"
    using unique_by_id_ids [of "{}" urgent] by (simp add: res)
  have c5: "\<forall>t\<in>set (get_urgent_reminders clk tm). find (\<lambda>u. task_id u = task_id t) urgent = Some t"
    using unique_by_id_first [of _ "{}" urgent] by (simp add: res)
  have c6: "distinct (map task_id (tasks tm)) \<longrightarrow> set (get_urgent_reminders clk tm) = set urgent"
  proof
    assume "distinct (map task_id (tasks tm))"
    then have "inj_on task_id (set (tasks tm))" by (simp add: distinct_map)
    moreover have "set urgent \<subseteq> set (tasks tm)" by (auto simp add: urgent_def)
    ultimately have "inj_on task_id (set urgent)" by (rule inj_on_subset)
    from unique_by_id_inj [OF this, of "{}"] show "set (get_urgent_reminders clk tm) = set urgent"
      by (simp add: res)
  qed
  from c1 c2 c3 c4 c5 c6 show ?thesis
    unfolding su [symmetric] urgent_def by blast
qed

theorem urgent_reminders_union_dedup_sorted_witness:
  "distinct (map task_id (tasks sample_urgent_store))
   \<and> sample_today \<in> set (get_urgent_reminders sample_clock sample_urgent_store)
   \<and> map urgent_key [sample_overdue, sample_today, sample_today_low] =
        [(738885, 2), (738886, 1), (738886, 3)]
   \<and> get_urgent_reminders sample_clock sample_urgent_store =
        [sample_overdue, sample_today, sample_today_low]
   \<and> find (\<lambda>u. task_id u = task_id sample_today)
        (filter (\<lambda>t. \<not> completed t \<and> deadline_date t = today sample_clock)
           (tasks sample_urgent_store)
         @ filter (is_overdue sample_clock) (tasks sample_urgent_store)) = Some sample_today
   \<and> set (get_urgent_reminders sample_clock sample_urgent_store) =
        {t \<in> set (tasks sample_urgent_store).
           \<not> completed t \<and> deadline_date t = today sample_clock}
        \<union> {t \<in> set (tasks sample_urgent_store). is_overdue sample_clock t}"
proof -
  have d: "distinct (map task_id (tasks sample_urgent_store))"
    by (simp add: sample_urgent_store_def sample_later_def sample_done_def sample_today_def
          sample_overdue_def sample_today_low_def)
  have m: "sample_today \<in> set (get_urgent_reminders sample_clock sample_urgent_store)"
    by (simp add: sample_urgent)
  have k: "map urgent_key [sample_overdue, sample_today, sample_today_low] =
        [(738885, 2), (738886, 1), (738886, 3)]"
    by (simp add: urgent_key_def sample_today_def sample_overdue_def sample_today_low_def)
  note main = urgent_reminders_union_dedup_sorted [of sample_clock sample_urgent_store]
  from main m have f: "find (\<lambda>u. task_id u = task_id sample_today)
        (filter (\<lambda>t. \<not> completed t \<and> deadline_date t = today sample_clock)
           (tasks sample_urgent_store)
         @ filter (is_overdue sample_clock) (tasks sample_urgent_store)) = Some sample_today"
    by blast
  from main d have s: "set (get_urgent_reminders sample_clock sample_urgent_store) =
        {t \<in> set (tasks sample_urgent_store).
           \<not> completed t \<and> deadline_date t = today sample_clock}
        \<union> {t \<in> set (tasks sample_urgent_store). is_overdue sample_clock t}"
    by blast
  from d m k f s sample_urgent show ?thesis by blast
qed

text \<open>
  C7. With threshold \<open>n\<close>, \<open>get_upcoming_reminders\<close> is the store's \<open>get_upcoming_tasks n\<close>
  with the tasks due today filtered out. The store's result is the not-completed tasks
  with \<open>today \<le> deadline_date \<le> today + n\<close>, stably sorted by the pair of deadline date
  and deadline time, a missing deadline time counting as the start of the day: it is in
  ascending order of deadline date and, among tasks of one deadline date, of that time.
  So the aggregator's result is those of them due after today, in the same order, and
  holds no task due today. Both raise \<open>OverflowError\<close> when \<open>today + n\<close> is not a date.
\<close>

theorem upcoming_reminders_exclude_today:
  assumes "valid_date (today clk)" and "upcoming_threshold settings = n"
  shows "get_upcoming_reminders settings clk tm =
           (case get_upcoming_tasks clk tm n of
              Inl e \<Rightarrow> Inl e
            | Inr upcoming \<Rightarrow> Inr (filter (\<lambda>t. deadline_date t \<noteq> today clk) upcoming))
       \<and> (valid_date (today clk + n) \<longrightarrow>
            get_upcoming_tasks clk tm n =
              Inr (sort_key
                     (\<lambda>t. (deadline_date t, (case deadline_time t of None \<Rightarrow> 0 | Some x \<Rightarrow> x)))
                     (filter (in_window clk n) (tasks tm)))
            \<and> get_upcoming_reminders settings clk tm =
              Inr (sort_key
                     (\<lambda>t. (deadline_date t, (case deadline_time t of None \<Rightarrow> 0 | Some x \<Rightarrow> x)))
                     (filter (\<lambda>t. in_window clk n t \<and> deadline_date t \<noteq> today clk) (tasks tm)))
            \<and> (\<forall>us. get_upcoming_tasks clk tm n = Inr us \<longrightarrow>
                  set us = {t \<in> set (tasks tm). in_window clk n t}
                  \<and> sorted_wrt
                       (\<lambda>a b. deadline_date a < deadline_date b
                              \<or> (deadline_date a = deadline_date b
                                  \<and> (case deadline_time a of None \<Rightarrow> 0 | Some x \<Rightarrow> x)
                                      \<le> (case deadline_time b of None \<Rightarrow> 0 | Some x \<Rightarrow> x)))
                       us)
            \<and> (\<forall>rs. get_upcoming_reminders settings clk tm = Inr rs \<longrightarrow>
                  (\<forall>t\<in>set rs. deadline_date t \<noteq> today clk)
                  \<and> sorted_wrt
                       (\<lambda>a b. deadline_date a < deadline_date b
                              \<or> (deadline_date a = deadline_date b
                                  \<and> (case deadline_time a of None \<Rightarrow> 0 | Some x \<Rightarrow> x)
                                      \<le> (case deadline_time b of None \<Rightarrow> 0 | Some x \<Rightarrow> x)))
                       rs))
       \<and> (\<not> valid_date (today clk + n) \<longrightarrow>
            get_upcoming_tasks clk tm n = Inl OverflowError
            \<and> get_upcoming_reminders settings clk tm = Inl OverflowError)"
proof -
  have key: "deadline_key =
      (\<lambda>t. (deadline_date t, (case deadline_time t of None \<Rightarrow> 0 | Some x \<Rightarrow> x)))"
    by (auto simp add: fun_eq_iff deadline_key_def time_min_def split: option.splits)
  have a: "get_upcoming_reminders settings clk tm =
           (case get_upcoming_tasks clk tm n of
              Inl e \<Rightarrow> Inl e
            | Inr upcoming \<Rightarrow> Inr (filter (\<lambda>t. deadline_date t \<noteq> today clk) upcoming))"
    using assms(2) by (simp add: get_upcoming_reminders_def)
  note b = get_upcoming_tasks_valid [OF assms(1), of tm n]
  have c: "filter (\<lambda>t. deadline_date t \<noteq> today clk)
             (sort_key deadline_key (filter (in_window clk n) (tasks tm))) =
           sort_key deadline_key
             (filter (\<lambda>t. in_window clk n t \<and> deadline_date t \<noteq> today clk) (tasks tm))"
    by (simp add: filter_sort conj_commute)
  show ?thesis
  proof (cases "valid_date (today clk + n)")
    case True
    with b have u: "get_upcoming_tasks clk tm n =
        Inr (sort_key deadline_key (filter (in_window clk n) (tasks tm)))"
      by simp
    with a c have r: "get_upcoming_reminders settings clk tm =
        Inr (sort_key deadline_key
               (filter (\<lambda>t. in_window clk n t \<and> deadline_date t \<noteq> today clk) (tasks tm)))"
      by simp
    have pu: "\<forall>us. get_upcoming_tasks clk tm n = Inr us \<longrightarrow>
                  set us = {t \<in> set (tasks tm). in_window clk n t}
                  \<and> sorted_wrt
                       (\<lambda>a b. deadline_date a < deadline_date b
                              \<or> (deadline_date a = deadline_date b
                                  \<and> (case deadline_time a of None \<Rightarrow> 0 | Some x \<Rightarrow> x)
                                      \<le> (case deadline_time b of None \<Rightarrow> 0 | Some x \<Rightarrow> x)))
                       us"
    proof (intro allI impI)
      fix us
      assume "get_upcoming_tasks clk tm n = Inr us"
      with u have us: "us = sort_key deadline_key (filter (in_window clk n) (tasks tm))" by simp
      have "set us = {t \<in> set (tasks tm). in_window clk n t}"
        unfolding us by auto
      moreover have "sorted_wrt
                       (\<lambda>a b. deadline_date a < deadline_date b
                              \<or> (deadline_date a = deadline_date b
                                  \<and> (case deadline_time a of None \<Rightarrow> 0 | Some x \<Rightarrow> x)
                                      \<le> (case deadline_time b of None \<Rightarrow> 0 | Some x \<Rightarrow> x)))
                       us"
        unfolding us by (rule sort_key_deadline_order)
      ultimately show "set us = {t \<in> set (tasks tm). in_window clk n t}
                  \<and> sorted_wrt
                       (\<lambda>a b. deadline_date a < deadline_date b
                              \<or> (deadline_date a = deadline_date b
                                  \<and> (case deadline_time a of None \<Rightarrow> 0 | Some x \<Rightarrow> x)
                                      \<le> (case deadline_time b of None \<Rightarrow> 0 | Some x \<Rightarrow> x)))
                       us"
        by (rule conjI)
    qed
    have pr: "\<forall>rs. get_upcoming_reminders settings clk tm = Inr rs \<longrightarrow>
                  (\<forall>t\<in>set rs. deadline_date t \<noteq> today clk)
                  \<and> sorted_wrt
                       (\<lambda>a b. deadline_date a < deadline_date b
                              \<or> (deadline_date a = deadline_date b
                                  \<and> (case deadline_time a of None \<Rightarrow> 0 | Some x \<Rightarrow> x)
                                      \<le> (case deadline_time b of None \<Rightarrow> 0 | Some x \<Rightarrow> x)))
                       rs"
    proof (intro allI impI)
      fix rs
      assume "get_upcoming_reminders settings clk tm = Inr rs"
      with r have rs: "rs = sort_key deadline_key
               (filter (\<lambda>t. in_window clk n t \<and> deadline_date t \<noteq> today clk) (tasks tm))"
        by simp
      have "\<forall>t\<in>set rs. deadline_date t \<noteq> today clk"
        unfolding rs by simp
      moreover have "sorted_wrt
                       (\<lambda>a b. deadline_date a < deadline_date b
                              \<or> (deadline_date a = deadline_date b
                                  \<and> (case deadline_time a of None \<Rightarrow> 0 | Some x \<Rightarrow> x)
                                      \<le> (case deadline_time b of None \<Rightarrow> 0 | Some x \<Rightarrow> x)))
                       rs"
        unfolding rs by (rule sort_key_deadline_order)
      ultimately show "(\<forall>t\<in>set rs. deadline_date t \<noteq> today clk)
                  \<and> sorted_wrt
                       (\<lambda>a b. deadline_date a < deadline_date b
                              \<or> (deadline_date a = deadline_date b
                                  \<and> (case deadline_time a of None \<Rightarrow> 0 | Some x \<Rightarrow> x)
                                      \<le> (case deadline_time b of None \<Rightarrow> 0 | Some x \<Rightarrow> x)))
                       rs"
        by (rule conjI)
    qed
    from True a u [unfolded key] r [unfolded key] pu pr show ?thesis by blast
  next
    case False
    with a b show ?thesis by simp
  qed
qed

theorem upcoming_reminders_exclude_today_witness:
  "valid_date (today sample_clock) \<and> upcoming_threshold default_settings = 3
   \<and> valid_date (today sample_clock + 3)
   \<and> map deadline_date [sample_today, sample_later, sample_later_timed] =
        [738886, 738888, 738888]
   \<and> map deadline_time [sample_today, sample_later, sample_later_timed] =
        [Some 32400000000, None, Some 64800000000]
   \<and> get_upcoming_tasks sample_clock sample_upcoming_store 3 =
        Inr [sample_today, sample_later, sample_later_timed]
   \<and> get_upcoming_reminders default_settings sample_clock sample_upcoming_store =
        Inr [sample_later, sample_later_timed]"
proof -
  have t: "upcoming_threshold default_settings = 3" by (simp add: default_settings_def)
  have v: "valid_date (today sample_clock + 3)" by (simp add: valid_date_def sample_clock_def)
  have f: "map deadline_date [sample_today, sample_later, sample_later_timed] =
        [738886, 738888, 738888]
     \<and> map deadline_time [sample_today, sample_later, sample_later_timed] =
        [Some 32400000000, None, Some 64800000000]"
    by (simp add: sample_today_def sample_later_def sample_later_timed_def)
  note main = upcoming_reminders_exclude_today [OF sample_today_valid t, of sample_upcoming_store]
  from main v have "get_upcoming_tasks sample_clock sample_upcoming_store 3 =
      Inr (sort_key
             (\<lambda>t. (deadline_date t, (case deadline_time t of None \<Rightarrow> 0 | Some x \<Rightarrow> x)))
             (filter (in_window sample_clock 3) (tasks sample_upcoming_store)))"
    by blast
  then have u: "get_upcoming_tasks sample_clock sample_upcoming_store 3 =
      Inr [sample_today, sample_later, sample_later_timed]"
    by (simp add: in_window_def sample_upcoming_store_def sample_later_def sample_done_def
          sample_today_def sample_overdue_def sample_later_timed_def sample_clock_def sort_key_def)
  from main have "get_upcoming_reminders default_settings sample_clock sample_upcoming_store =
      (case get_upcoming_tasks sample_clock sample_upcoming_store 3 of
         Inl e \<Rightarrow> Inl e
       | Inr upcoming \<Rightarrow> Inr (filter (\<lambda>t. deadline_date t \<noteq> today sample_clock) upcoming))"
    by (rule conjunct1)
  then have "get_upcoming_reminders default_settings sample_clock sample_upcoming_store =
      Inr (filter (\<lambda>t. deadline_date t \<noteq> today sample_clock)
             [sample_today, sample_later, sample_later_timed])"
    by (simp add: u)
  then have "get_upcoming_reminders default_settings sample_clock sample_upcoming_store =
      Inr [sample_later, sample_later_timed]"
    by (simp add: sample_later_def sample_today_def sample_later_timed_def sample_clock_def)
  with sample_today_valid t v f u show ?thesis by blast
qed

section \<open>Task store: completing a recurring task\<close>

lemma ascii_lower_home_gym: "ascii_lower ''HOME Gym'' = ''home gym''"
  by code_simp

lemma position_by_id_distinct:
  "distinct (map task_id xs) \<Longrightarrow> i < length xs \<Longrightarrow> position_by_id xs (task_id (xs ! i)) = Some i"
proof (induction xs arbitrary: i)
  case Nil
  then show ?case by simp
next
  case (Cons x xs)
  show ?case
  proof (cases i)
    case 0
    then show ?thesis by simp
  next
    case (Suc j)
    with Cons.prems have j: "j < length xs" by simp
    then have "xs ! j \<in> set xs" by simp
    with Cons.prems(1) have "task_id x \<noteq> task_id (xs ! j)" by auto
    moreover from Cons.prems(1) have "distinct (map task_id xs)" by simp
    ultimately show ?thesis using Cons.IH [OF _ j] Suc by simp
  qed
qed

lemma position_by_id_bound:
  "position_by_id xs tid = Some i \<Longrightarrow> i < length xs"
  by (induction xs arbitrary: i) (auto split: if_splits)

lemma mark_completed_next_deadline:
  "get_next_deadline (task_mark_completed clk t) = get_next_deadline t"
  by (cases "recurring t") (simp_all add: get_next_deadline_def task_mark_completed_def)

lemma mark_completed_recurring_result:
  assumes "distinct (map task_id (tasks tm))"
    and "i < length (tasks tm)" and "tasks tm ! i = t"
    and "recurring t = Some r"
  shows "mark_completed clk uuid tm (task_id t) =
           (case get_next_deadline t of
              Inl e \<Rightarrow>
                Inl (e, \<lparr> tasks = (tasks tm)[i := t \<lparr> completed := True,
                                                   completed_at := Some (datetime_now clk) \<rparr>] \<rparr>)
            | Inr d \<Rightarrow>
                Inr (True,
                  \<lparr> tasks =
                      (tasks tm)[i := t \<lparr> completed := True,
                                          completed_at := Some (datetime_now clk) \<rparr>]
                      @ [\<lparr> task_id = uuid, title = title t, description = description t,
                           deadline_date = d, deadline_time = deadline_time t,
                           priority = priority t, category = str_lower clk (category t),
                           completed = False, created_at = datetime_now clk,
                           completed_at = None,
                           recurring = Some \<lparr> recurrence_type = recurrence_type r,
                                              recurrence_count = recurrence_count r,
                                              original_deadline = Some d \<rparr> \<rparr>] \<rparr>))"
proof -
  have pos: "position_by_id (tasks tm) (task_id t) = Some i"
    using position_by_id_distinct [OF assms(1) assms(2)] assms(3) by simp
  have rec: "recurring (task_mark_completed clk t) = Some r"
    using assms(4) by (simp add: task_mark_completed_def)
  note nd = mark_completed_next_deadline [of clk t]
  show ?thesis
  proof (cases "get_next_deadline t")
    case (Inl e)
    with pos rec nd assms(3) show ?thesis
      by (simp add: mark_completed_def Let_def isinstance_RecurringTask_def
            handle_recurring_task_completion_def)
         (simp add: task_mark_completed_def)
  next
    case (Inr d)
    with pos rec nd assms(3) show ?thesis
      by (simp add: mark_completed_def Let_def isinstance_RecurringTask_def
            handle_recurring_task_completion_def RecurringTask_init_def BaseTask_init_def)
         (simp add: task_mark_completed_def)
  qed
qed

text \<open>
  C4. The claim: for every Recurring task in the store, \<open>mark_completed\<close> marks it
  completed and appends exactly one new Recurring task due on the completed instance's
  next deadline, with the same title, description, priority, category, deadline time and
  recurrence settings, a fresh id and \<open>completed = False\<close>, the original staying in the
  store otherwise unchanged. The constructor lowercases the category it is given, so a
  task whose category was set to \<open>HOME Gym\<close> through \<open>update_task\<close> spawns one with
  category \<open>home gym\<close>; a task due on 9999-12-31 has no next deadline, the call raises
  \<open>OverflowError\<close> and nothing is appended; and the new id is whatever \<open>uuid4\<close> draws,
  which the code never compares with the ids in the store (the counterexample below).
  As amended: in a store with unique ids, \<open>mark_completed\<close> on the id of a Recurring task
  marks it completed, setting \<open>completed\<close> and \<open>completed_at\<close> and nothing else; when the
  next deadline of that instance is a date it returns true and appends exactly one new
  Recurring task, due on that date, with the same title, description, priority, deadline
  time and recurrence settings, the category lowercased (so the same category when it is
  lowercase already), the id drawn by \<open>uuid4\<close> and \<open>completed = False\<close>, and ids stay
  unique when the drawn id is not yet in the store; when the next deadline raises, that
  error is raised and nothing is appended.
\<close>

theorem mark_completed_recurring_spawns_next:
  assumes "distinct (map task_id (tasks tm))"
    and "i < length (tasks tm)" and "tasks tm ! i = t"
    and "recurring t = Some r"
  shows "get_next_deadline (task_mark_completed clk t) = get_next_deadline t
       \<and> (\<forall>d. get_next_deadline t = Inr d \<longrightarrow>
            mark_completed clk uuid tm (task_id t) =
              Inr (True,
                \<lparr> tasks =
                    (tasks tm)[i := t \<lparr> completed := True,
                                        completed_at := Some (datetime_now clk) \<rparr>]
                    @ [\<lparr> task_id = uuid, title = title t, description = description t,
                         deadline_date = d, deadline_time = deadline_time t,
                         priority = priority t, category = str_lower clk (category t),
                         completed = False, created_at = datetime_now clk,
                         completed_at = None,
                         recurring = Some \<lparr> recurrence_type = recurrence_type r,
                                            recurrence_count = recurrence_count r,
                                            original_deadline = Some d \<rparr> \<rparr>] \<rparr>))
       \<and> (\<forall>e. get_next_deadline t = Inl e \<longrightarrow>
            mark_completed clk uuid tm (task_id t) =
              Inl (e, \<lparr> tasks = (tasks tm)[i := t \<lparr> completed := True,
                                                 completed_at := Some (datetime_now clk) \<rparr>] \<rparr>))
       \<and> (uuid \<notin> set (map task_id (tasks tm)) \<longrightarrow>
            (\<forall>tm'. mark_completed clk uuid tm (task_id t) = Inr (True, tm') \<longrightarrow>
               distinct (map task_id (tasks tm'))))"
proof -
  note res = mark_completed_recurring_result [OF assms, of clk uuid]
  note a = mark_completed_next_deadline [of clk t]
  have b: "\<forall>d. get_next_deadline t = Inr d \<longrightarrow>
            mark_completed clk uuid tm (task_id t) =
              Inr (True,
                \<lparr> tasks =
                    (tasks tm)[i := t \<lparr> completed := True,
                                        completed_at := Some (datetime_now clk) \<rparr>]
                    @ [\<lparr> task_id = uuid, title = title t, description = description t,
                         deadline_date = d, deadline_time = deadline_time t,
                         priority = priority t, category = str_lower clk (category t),
                         completed = False, created_at = datetime_now clk,
                         completed_at = None,
                         recurring = Some \<lparr> recurrence_type = recurrence_type r,
                                            recurrence_count = recurrence_count r,
                                            original_deadline = Some d \<rparr> \<rparr>] \<rparr>)"
    using res by simp
  have c: "\<forall>e. get_next_deadline t = Inl e \<longrightarrow>
            mark_completed clk uuid tm (task_id t) =
              Inl (e, \<lparr> tasks = (tasks tm)[i := t \<lparr> completed := True,
                                                 completed_at := Some (datetime_now clk) \<rparr>] \<rparr>)"
    using res by simp
  have ids: "map task_id ((tasks tm)[i := t \<lparr> completed := True,
                                            completed_at := Some (datetime_now clk) \<rparr>])
             = map task_id (tasks tm)"
    using assms(2,3) by (simp add: map_update list_update_same_conv)
  have d: "uuid \<notin> set (map task_id (tasks tm)) \<longrightarrow>
            (\<forall>tm'. mark_completed clk uuid tm (task_id t) = Inr (True, tm') \<longrightarrow>
               distinct (map task_id (tasks tm')))"
  proof (cases "get_next_deadline t")
    case (Inl e)
    with c show ?thesis by simp
  next
    case (Inr d)
    with b have "mark_completed clk uuid tm (task_id t) =
              Inr (True,
                \<lparr> tasks =
                    (tasks tm)[i := t \<lparr> completed := True,
                                        completed_at := Some (datetime_now clk) \<rparr>]
                    @ [\<lparr> task_id = uuid, title = title t, description = description t,
                         deadline_date = d, deadline_time = deadline_time t,
                         priority = priority t, category = str_lower clk (category t),
                         completed = False, created_at = datetime_now clk,
                         completed_at = None,
                         recurring = Some \<lparr> recurrence_type = recurrence_type r,
                                            recurrence_count = recurrence_count r,
                                            original_deadline = Some d \<rparr> \<rparr>] \<rparr>)"
      by blast
    then show ?thesis using assms(1) ids by auto
  qed
  from a b c d show ?thesis by blast
qed

theorem mark_completed_recurring_spawns_next_witness:
  "distinct (map task_id (tasks sample_recurring_store))
   \<and> tasks sample_recurring_store ! 1 = sample_recurring
   \<and> get_next_deadline sample_recurring = Inr 738889
   \<and> mark_completed sample_clock ''id-next'' sample_recurring_store ''id-r'' =
       Inr (True,
         \<lparr> tasks =
             [sample_later,
              sample_recurring \<lparr> completed := True, completed_at := Some (738886, 43200000000) \<rparr>,
              \<lparr> task_id = ''id-next'', title = ''Water plants'', description = ''balcony'',
                deadline_date = 738889, deadline_time = None, priority = 1, category = ''home'',
                completed = False, created_at = (738886, 43200000000), completed_at = None,
                recurring = Some \<lparr> recurrence_type = ''daily'', recurrence_count = 3,
                                   original_deadline = Some 738889 \<rparr> \<rparr>] \<rparr>)"
proof -
  have d: "distinct (map task_id (tasks sample_recurring_store))"
    by (simp add: sample_recurring_store_def sample_later_def sample_recurring_fields)
  have i: "1 < length (tasks sample_recurring_store)"
    by (simp add: sample_recurring_store_def)
  have e: "tasks sample_recurring_store ! 1 = sample_recurring"
    by (simp add: sample_recurring_store_def)
  have r: "recurring sample_recurring =
     Some \<lparr> recurrence_type = ''daily'', recurrence_count = 3, original_deadline = Some 738886 \<rparr>"
    by (rule sample_recurring_fields)
  have n: "get_next_deadline sample_recurring = Inr 738889"
    by (simp add: get_next_deadline_def sample_recurring_fields date_plus_days_def
          timedelta_def date_add_def)
  from mark_completed_recurring_spawns_next [OF d i e r, of sample_clock "''id-next''"] n
  have "mark_completed sample_clock ''id-next'' sample_recurring_store (task_id sample_recurring) =
       Inr (True,
         \<lparr> tasks =
             (tasks sample_recurring_store)
               [1 := sample_recurring
                  \<lparr> completed := True, completed_at := Some (datetime_now sample_clock) \<rparr>]
             @ [\<lparr> task_id = ''id-next'', title = title sample_recurring,
                  description = description sample_recurring,
                  deadline_date = 738889, deadline_time = deadline_time sample_recurring,
                  priority = priority sample_recurring,
                  category = str_lower sample_clock (category sample_recurring),
                  completed = False, created_at = datetime_now sample_clock, completed_at = None,
                  recurring =
                    Some \<lparr> recurrence_type =
                             recurrence_type \<lparr> recurrence_type = ''daily'', recurrence_count = 3,
                               original_deadline = Some 738886 \<rparr>,
                           recurrence_count =
                             recurrence_count \<lparr> recurrence_type = ''daily'', recurrence_count = 3,
                               original_deadline = Some 738886 \<rparr>,
                           original_deadline = Some 738889 \<rparr> \<rparr>] \<rparr>)"
    by blast
  then have "mark_completed sample_clock ''id-next'' sample_recurring_store ''id-r'' =
       Inr (True,
         \<lparr> tasks =
             [sample_later,
              sample_recurring \<lparr> completed := True, completed_at := Some (738886, 43200000000) \<rparr>,
              \<lparr> task_id = ''id-next'', title = ''Water plants'', description = ''balcony'',
                deadline_date = 738889, deadline_time = None, priority = 1, category = ''home'',
                completed = False, created_at = (738886, 43200000000), completed_at = None,
                recurring = Some \<lparr> recurrence_type = ''daily'', recurrence_count = 3,
                                   original_deadline = Some 738889 \<rparr> \<rparr>] \<rparr>)"
    by (simp add: sample_recurring_fields sample_recurring_store_def datetime_now_def
          sample_clock_def ascii_lower_home)
  with d e n show ?thesis by simp
qed

lemma sample_renamed_tasks:
  "tasks sample_renamed_store = [sample_recurring \<lparr> category := ''HOME Gym'' \<rparr>]"
  by (simp add: sample_renamed_store_def update_task_def sample_recurring_fields)

lemma sample_last_day_fields:
  "task_id sample_last_day = ''id-z''"
  "recurring sample_last_day =
     Some \<lparr> recurrence_type = ''daily'', recurrence_count = 1, original_deadline = Some 3652059 \<rparr>"
  "get_next_deadline sample_last_day = Inl OverflowError"
  by (simp_all add: sample_last_day_def RecurringTask_init_def BaseTask_init_def
        get_next_deadline_def date_plus_days_def timedelta_def date_add_def)

theorem mark_completed_recurring_counterexample:
  "tasks sample_renamed_store = [sample_recurring \<lparr> category := ''HOME Gym'' \<rparr>]
   \<and> mark_completed sample_clock ''id-next'' sample_renamed_store ''id-r'' =
       Inr (True,
         \<lparr> tasks =
             [sample_recurring \<lparr> category := ''HOME Gym'', completed := True,
                                 completed_at := Some (738886, 43200000000) \<rparr>,
              \<lparr> task_id = ''id-next'', title = ''Water plants'', description = ''balcony'',
                deadline_date = 738889, deadline_time = None, priority = 1,
                category = ''home gym'',
                completed = False, created_at = (738886, 43200000000), completed_at = None,
                recurring = Some \<lparr> recurrence_type = ''daily'', recurrence_count = 3,
                                   original_deadline = Some 738889 \<rparr> \<rparr>] \<rparr>)
   \<and> deadline_date sample_last_day = 3652059
   \<and> mark_completed sample_clock ''id-next'' sample_last_day_store ''id-z'' =
       Inl (OverflowError,
         \<lparr> tasks = [sample_last_day \<lparr> completed := True,
                                      completed_at := Some (738886, 43200000000) \<rparr>] \<rparr>)
   \<and> map task_id
         (case mark_completed sample_clock ''id-r'' sample_recurring_store ''id-r'' of
            Inl failed \<Rightarrow> [] | Inr ok \<Rightarrow> tasks (snd ok)) =
       [''id-l'', ''id-r'', ''id-r'']"
proof -
  let ?renamed = "sample_recurring \<lparr> category := ''HOME Gym'' \<rparr>"
  have 1: "tasks sample_renamed_store = [?renamed]" by (rule sample_renamed_tasks)
  have d1: "distinct (map task_id (tasks sample_renamed_store))" by (simp add: 1)
  have i1: "0 < length (tasks sample_renamed_store)" by (simp add: 1)
  have e1: "tasks sample_renamed_store ! 0 = ?renamed" by (simp add: 1)
  have r1: "recurring ?renamed =
     Some \<lparr> recurrence_type = ''daily'', recurrence_count = 3, original_deadline = Some 738886 \<rparr>"
    by (simp add: sample_recurring_fields)
  have n1: "get_next_deadline ?renamed = Inr 738889"
    by (simp add: get_next_deadline_def sample_recurring_fields date_plus_days_def
          timedelta_def date_add_def)
  from mark_completed_recurring_result [OF d1 i1 e1 r1, of sample_clock "''id-next''"]
  have 2: "mark_completed sample_clock ''id-next'' sample_renamed_store ''id-r'' =
       Inr (True,
         \<lparr> tasks =
             [sample_recurring \<lparr> category := ''HOME Gym'', completed := True,
                                 completed_at := Some (738886, 43200000000) \<rparr>,
              \<lparr> task_id = ''id-next'', title = ''Water plants'', description = ''balcony'',
                deadline_date = 738889, deadline_time = None, priority = 1,
                category = ''home gym'',
                completed = False, created_at = (738886, 43200000000), completed_at = None,
                recurring = Some \<lparr> recurrence_type = ''daily'', recurrence_count = 3,
                                   original_deadline = Some 738889 \<rparr> \<rparr>] \<rparr>)"
    by (simp add: n1 1 sample_recurring_fields datetime_now_def sample_clock_def
          ascii_lower_home_gym)
  have 3: "deadline_date sample_last_day = 3652059"
    by (simp add: sample_last_day_def RecurringTask_init_def BaseTask_init_def)
  have d2: "distinct (map task_id (tasks sample_last_day_store))"
    by (simp add: sample_last_day_store_def)
  have i2: "0 < length (tasks sample_last_day_store)" by (simp add: sample_last_day_store_def)
  have e2: "tasks sample_last_day_store ! 0 = sample_last_day"
    by (simp add: sample_last_day_store_def)
  from mark_completed_recurring_result
    [OF d2 i2 e2 sample_last_day_fields(2), of sample_clock "''id-next''"]
  have 4: "mark_completed sample_clock ''id-next'' sample_last_day_store ''id-z'' =
       Inl (OverflowError,
         \<lparr> tasks = [sample_last_day \<lparr> completed := True,
                                      completed_at := Some (738886, 43200000000) \<rparr>] \<rparr>)"
    by (simp add: sample_last_day_fields sample_last_day_store_def datetime_now_def
          sample_clock_def)
  have d3: "distinct (map task_id (tasks sample_recurring_store))"
    by (simp add: sample_recurring_store_def sample_later_def sample_recurring_fields)
  have i3: "1 < length (tasks sample_recurring_store)"
    by (simp add: sample_recurring_store_def)
  have e3: "tasks sample_recurring_store ! 1 = sample_recurring"
    by (simp add: sample_recurring_store_def)
  have n3: "get_next_deadline sample_recurring = Inr 738889"
    by (simp add: get_next_deadline_def sample_recurring_fields date_plus_days_def
          timedelta_def date_add_def)
  from mark_completed_recurring_result
    [OF d3 i3 e3 sample_recurring_fields(11), of sample_clock "''id-r''"]
  have 5: "map task_id
         (case mark_completed sample_clock ''id-r'' sample_recurring_store ''id-r'' of
            Inl failed \<Rightarrow> [] | Inr ok \<Rightarrow> tasks (snd ok)) =
       [''id-l'', ''id-r'', ''id-r'']"
    by (simp add: n3 sample_recurring_fields sample_recurring_store_def sample_later_def)
  from 1 2 3 4 5 show ?thesis by simp
qed

section \<open>The completion invariant\<close>

lemma init_invariant:
  "completed_at_invariant (BaseTask_init clk uuid ttl descr dd dt prio cat)"
  by (simp add: completed_at_invariant_def BaseTask_init_def)

lemma recurring_init_invariant:
  "completed_at_invariant (RecurringTask_init clk uuid ttl descr dd dt prio cat rtype rcount)"
  by (simp add: completed_at_invariant_def RecurringTask_init_def BaseTask_init_def)

lemma task_mark_completed_invariant: "completed_at_invariant (task_mark_completed clk t)"
  by (simp add: completed_at_invariant_def task_mark_completed_def)

lemma reset_invariant: "reset_for_next_cycle t = Inr t' \<Longrightarrow> completed_at_invariant t'"
  by (auto simp add: reset_for_next_cycle_def completed_at_invariant_def split: sum.splits)

lemma setattr_invariant:
  "\<not> touches_completion k \<Longrightarrow> completed_at_invariant t \<Longrightarrow>
     completed_at_invariant (setattr_if_hasattr t k)"
  by (cases k) (auto simp add: completed_at_invariant_def split: option.splits)

lemma foldl_setattr_invariant:
  "\<forall>k\<in>set ks. \<not> touches_completion k \<Longrightarrow> completed_at_invariant t \<Longrightarrow>
     completed_at_invariant (foldl setattr_if_hasattr t ks)"
proof (induction ks arbitrary: t)
  case Nil
  then show ?case by simp
next
  case (Cons k ks)
  from Cons.prems have "completed_at_invariant (setattr_if_hasattr t k)"
    by (simp add: setattr_invariant)
  moreover from Cons.prems have "\<forall>k\<in>set ks. \<not> touches_completion k" by simp
  ultimately show ?case using Cons.IH by simp
qed

lemma list_all_update:
  "list_all P xs \<Longrightarrow> P v \<Longrightarrow> list_all P (xs[i := v])"
  using set_update_subset_insert [of xs i v] by (auto simp add: list_all_iff)

lemma add_task_invariant:
  "store_invariant tm \<Longrightarrow>
     store_invariant (snd (add_task clk uuid tm ttl descr dd dt prio cat task_type kw_rtype kw_rcount))"
  by (simp add: store_invariant_def add_task_def RegularTask_init_def init_invariant
        recurring_init_invariant)

lemma mark_completed_invariant:
  assumes "store_invariant tm"
  shows "(case mark_completed clk uuid tm tid of
            Inl (e, tm') \<Rightarrow> store_invariant tm'
          | Inr (ok, tm') \<Rightarrow> store_invariant tm')"
proof (cases "position_by_id (tasks tm) tid")
  case None
  with assms show ?thesis by (simp add: mark_completed_def)
next
  case (Some i)
  have upd: "list_all completed_at_invariant
               ((tasks tm)[i := task_mark_completed clk (tasks tm ! i)])"
    using assms by (simp add: store_invariant_def list_all_update task_mark_completed_invariant)
  show ?thesis
    using Some upd
    by (auto simp add: mark_completed_def Let_def store_invariant_def
          handle_recurring_task_completion_def recurring_init_invariant
          split: sum.splits option.splits)
qed

lemma delete_task_invariant:
  "store_invariant tm \<Longrightarrow> store_invariant (snd (delete_task tm tid))"
  by (auto simp add: store_invariant_def delete_task_def list_all_iff
        split: option.splits dest: in_set_takeD in_set_dropD)

lemma cleanup_invariant:
  "store_invariant tm \<Longrightarrow> cleanup_completed_tasks clk tm days_old = Inr (n, tm') \<Longrightarrow>
     store_invariant tm'"
  by (auto simp add: store_invariant_def cleanup_completed_tasks_def Let_def list_all_iff
        split: sum.splits)

lemma update_task_invariant:
  assumes "store_invariant tm" and "\<forall>k\<in>set kwargs. \<not> touches_completion k"
  shows "store_invariant (snd (update_task tm tid kwargs))"
proof (cases "position_by_id (tasks tm) tid")
  case None
  with assms(1) show ?thesis by (simp add: update_task_def)
next
  case (Some i)
  then have "i < length (tasks tm)" by (rule position_by_id_bound)
  with assms(1) have "completed_at_invariant (tasks tm ! i)"
    by (simp add: store_invariant_def list_all_length)
  with assms(2) have "completed_at_invariant (foldl setattr_if_hasattr (tasks tm ! i) kwargs)"
    by (simp add: foldl_setattr_invariant)
  with assms(1) Some show ?thesis
    by (simp add: update_task_def store_invariant_def list_all_update)
qed

text \<open>
  C5. The claim: \<open>completed_at\<close> is set iff \<open>completed\<close> is true, after every core
  operation, \<open>update_task\<close> with arbitrary field updates included. \<open>update_task\<close> assigns
  any attribute it is given, so \<open>update_task(id, completed=True)\<close> leaves a completed task
  without \<open>completed_at\<close> (the counterexample below). As amended: the invariant holds at
  construction, after the task-level \<open>mark_completed\<close>, after \<open>reset_for_next_cycle\<close>, and
  is preserved by the store's \<open>add_task\<close>, \<open>mark_completed\<close> (with the spawned task, and
  also where the recurrence step raises), \<open>delete_task\<close> and \<open>cleanup_completed_tasks\<close>,
  and by \<open>update_task\<close> when the update sets neither \<open>completed\<close> nor \<open>completed_at\<close>.
\<close>

theorem completed_at_invariant_preserved:
  "completed_at_invariant (RegularTask_init clk uuid ttl descr dd dt prio cat)
   \<and> completed_at_invariant (RecurringTask_init clk uuid ttl descr dd dt prio cat rtype rcount)
   \<and> completed_at_invariant (task_mark_completed clk t)
   \<and> (\<forall>t'. reset_for_next_cycle t = Inr t' \<longrightarrow> completed_at_invariant t')
   \<and> (store_invariant tm \<longrightarrow>
         store_invariant
           (snd (add_task clk uuid tm ttl descr dd dt prio cat task_type kw_rtype kw_rcount))
         \<and> (case mark_completed clk uuid tm tid of
               Inl (e, tm') \<Rightarrow> store_invariant tm'
             | Inr (ok, tm') \<Rightarrow> store_invariant tm')
         \<and> store_invariant (snd (delete_task tm tid))
         \<and> (\<forall>n tm'. cleanup_completed_tasks clk tm days_old = Inr (n, tm') \<longrightarrow>
               store_invariant tm')
         \<and> ((\<forall>k\<in>set kwargs. \<not> touches_completion k) \<longrightarrow>
               store_invariant (snd (update_task tm tid kwargs))))"
proof -
  have 1: "completed_at_invariant (RegularTask_init clk uuid ttl descr dd dt prio cat)"
    by (simp add: RegularTask_init_def init_invariant)
  note 2 = recurring_init_invariant [of clk uuid ttl descr dd dt prio cat rtype rcount]
  note 3 = task_mark_completed_invariant [of clk t]
  have 4: "\<forall>t'. reset_for_next_cycle t = Inr t' \<longrightarrow> completed_at_invariant t'"
    using reset_invariant by blast
  have 5: "store_invariant tm \<longrightarrow>
         store_invariant
           (snd (add_task clk uuid tm ttl descr dd dt prio cat task_type kw_rtype kw_rcount))"
    using add_task_invariant by blast
  have 6: "store_invariant tm \<longrightarrow>
         (case mark_completed clk uuid tm tid of
               Inl (e, tm') \<Rightarrow> store_invariant tm'
             | Inr (ok, tm') \<Rightarrow> store_invariant tm')"
    using mark_completed_invariant by blast
  have 7: "store_invariant tm \<longrightarrow> store_invariant (snd (delete_task tm tid))"
    using delete_task_invariant by blast
  have 8: "store_invariant tm \<longrightarrow>
         (\<forall>n tm'. cleanup_completed_tasks clk tm days_old = Inr (n, tm') \<longrightarrow>
               store_invariant tm')"
    using cleanup_invariant by blast
  have 9: "store_invariant tm \<longrightarrow> (\<forall>k\<in>set kwargs. \<not> touches_completion k) \<longrightarrow>
               store_invariant (snd (update_task tm tid kwargs))"
    using update_task_invariant by blast
  from 1 2 3 4 5 6 7 8 9 show ?thesis by blast
qed

lemma sample_store_invariant: "store_invariant sample_store"
  by (simp add: store_invariant_def completed_at_invariant_def sample_store_def sample_later_def
        sample_done_def sample_today_def sample_overdue_def)

theorem completed_at_invariant_preserved_witness:
  "store_invariant sample_store
   \<and> list_all (\<lambda>k. \<not> touches_completion k) [Set_title ''Book trains'', Set_priority 2]
   \<and> store_invariant
        (snd (update_task sample_store ''id-l'' [Set_title ''Book trains'', Set_priority 2]))
   \<and> store_invariant (snd (delete_task sample_store ''id-d''))
   \<and> fst (update_task sample_store ''id-l'' [Set_title ''Book trains'', Set_priority 2])"
proof -
  have k: "\<forall>k\<in>set [Set_title ''Book trains'', Set_priority 2]. \<not> touches_completion k"
    by simp
  note main = completed_at_invariant_preserved
      [where tm = sample_store and tid = "''id-l''"
         and kwargs = "[Set_title ''Book trains'', Set_priority 2]"]
  from main sample_store_invariant k
  have u: "store_invariant
        (snd (update_task sample_store ''id-l'' [Set_title ''Book trains'', Set_priority 2]))"
    by blast
  from completed_at_invariant_preserved [where tm = sample_store and tid = "''id-d''"]
    sample_store_invariant
  have d: "store_invariant (snd (delete_task sample_store ''id-d''))"
    by blast
  have f: "fst (update_task sample_store ''id-l'' [Set_title ''Book trains'', Set_priority 2])"
    by (simp add: update_task_def sample_store_def sample_later_def)
  from sample_store_invariant u d f show ?thesis by simp
qed

theorem update_task_breaks_completed_at_invariant:
  "store_invariant sample_single_store
   \<and> update_task sample_single_store ''id-l'' [Set_completed True] =
       (True, \<lparr> tasks = [sample_later \<lparr> completed := True \<rparr>] \<rparr>)
   \<and> completed (sample_later \<lparr> completed := True \<rparr>)
   \<and> completed_at (sample_later \<lparr> completed := True \<rparr>) = None
   \<and> \<not> store_invariant (snd (update_task sample_single_store ''id-l'' [Set_completed True]))"
  by (simp add: store_invariant_def completed_at_invariant_def sample_single_store_def
        update_task_def sample_later_def)

end
